theory Spec2Isabelle
  imports Complex_Main
begin

section \<open>JavaScript values and style objects\<close>

text \<open>
  The two components compute style objects and a tree of elements. A style value is a
  number, a string, an animated value, the interpolation node that
  \<^verbatim>\<open>Animated.Value.interpolate({inputRange, outputRange})\<close> builds, a nested object
  (\<^verbatim>\<open>shadowOffset\<close>) or an array (\<^verbatim>\<open>transform\<close>). A missing property reads as
  \<^verbatim>\<open>undefined\<close>.
\<close>

datatype animated_value = Animated_Value nat

datatype jsval =
    Undefined
  | Null
  | Bool bool
  | Num real
  | Str string
  | Animated animated_value
  | Interpolation animated_value "int list" "jsval list"
  | Obj "(string \<times> jsval) list"
  | Arr "jsval list"

type_synonym style_obj = "(string \<times> jsval) list"

text \<open>
  An object is the list of its key/value pairs in the order written; where a key is
  written twice the later pair counts, as in a JavaScript object literal. The property
  read \<^verbatim>\<open>obj.key\<close> is \<^verbatim>\<open>undefined\<close> when the key is absent.
\<close>

definition property :: "style_obj \<Rightarrow> string \<Rightarrow> jsval" where
  "property obj key = (case map_of (rev obj) key of None \<Rightarrow> Undefined | Some v \<Rightarrow> v)"

text \<open>The assignment \<^verbatim>\<open>obj[key] = v\<close> and the removal of a key by rest destructuring.\<close>

definition delete_key :: "string \<Rightarrow> style_obj \<Rightarrow> style_obj" where
  "delete_key key obj = filter (\<lambda>(k, v). k \<noteq> key) obj"

definition set_key :: "string \<Rightarrow> jsval \<Rightarrow> style_obj \<Rightarrow> style_obj" where
  "set_key key v obj = delete_key key obj @ [(key, v)]"

text \<open>JavaScript truthiness, as used by \<^verbatim>\<open>elevation ? shadow(elevation) : null\<close>.\<close>

fun truthy :: "jsval \<Rightarrow> bool" where
  "truthy Undefined = False"
| "truthy Null = False"
| "truthy (Bool b) = b"
| "truthy (Num n) = (n \<noteq> 0)"
| "truthy (Str s) = (s \<noteq> [])"
| "truthy _ = True"

text \<open>
  A style prop is a style object, an array of style props, or a falsy entry
  (\<^verbatim>\<open>undefined\<close>, \<^verbatim>\<open>null\<close>, \<^verbatim>\<open>false\<close>).
\<close>

datatype style_prop =
    Falsy
  | Style style_obj
  | Styles "style_prop list"

text \<open>
  \<^verbatim>\<open>StyleSheet.flatten\<close> of the host framework, which is also how the host resolves the
  style array of a rendered view: a falsy style flattens to \<^verbatim>\<open>undefined\<close>, an object to
  itself, and an array to one object in which every key of a later entry overwrites the
  same key of an earlier one (\<^verbatim>\<open>result[key] = computedStyle[key]\<close>).
\<close>

fun assign :: "style_obj \<Rightarrow> style_obj \<Rightarrow> style_obj" where
  "assign result [] = result"
| "assign result ((key, v) # kvs) = assign (set_key key v result) kvs"

fun flatten :: "style_prop \<Rightarrow> style_obj option" where
  "flatten Falsy = None"
| "flatten (Style s) = Some s"
| "flatten (Styles ss) =
     Some (foldl (\<lambda>result s. case flatten s of None \<Rightarrow> result
                                | Some computedStyle \<Rightarrow> assign result computedStyle) [] ss)"

text \<open>\<^verbatim>\<open>StyleSheet.flatten(style) || {}\<close>.\<close>

definition flatten_or_empty :: "style_prop \<Rightarrow> style_obj" where
  "flatten_or_empty style = (case flatten style of None \<Rightarrow> [] | Some s \<Rightarrow> s)"

text \<open>Array read \<^verbatim>\<open>xs[i]\<close> of a number table: \<^verbatim>\<open>undefined\<close> out of range.\<close>

definition index :: "real list \<Rightarrow> int \<Rightarrow> jsval" where
  "index xs i = (if 0 \<le> i \<and> i < int (length xs) then Num (xs ! nat i) else Undefined)"

text \<open>The decimal text of an integer inside a template literal.\<close>

fun digits :: "nat \<Rightarrow> string" where
  "digits n = (if n < 10 then [''0123456789'' ! n]
               else digits (n div 10) @ [''0123456789'' ! (n mod 10)])"

definition number_to_string :: "int \<Rightarrow> string" where
  "number_to_string i = (if i < 0 then CHR ''-'' # digits (nat (- i)) else digits (nat i))"

section \<open>Theme, platform and collaborators\<close>

datatype theme_mode = Adaptive | Exact

record colors =
  c_surface :: jsval
  c_elevation :: "style_obj option"

record theme =
  th_dark :: bool
  th_mode :: "theme_mode option"
  th_isV3 :: bool
  th_colors :: colors

datatype os = Ios | Android | Other_OS

datatype appbar_mode = Small | Medium | Large | Center_Aligned

text \<open>
  The process-wide platform and the helpers that both components import from modules
  outside the files verified here (\<^verbatim>\<open>styles/overlay\<close>, \<^verbatim>\<open>styles/shadow\<close>,
  \<^verbatim>\<open>Appbar/utils\<close>, the \<^verbatim>\<open>color\<close> package). They are parameters of the model:
  every theorem holds for whatever they compute. \<^verbatim>\<open>color(s).isLight()\<close> may throw on a
  string that is no colour; that is the value \<open>None\<close>.
\<close>

record env =
  platform_OS :: os
  overlay :: "jsval \<Rightarrow> jsval \<Rightarrow> jsval"
  shadow :: "jsval \<Rightarrow> style_prop"
  getAppbarColor :: "theme \<Rightarrow> jsval \<Rightarrow> jsval \<Rightarrow> jsval"
  color_isLight :: "string \<Rightarrow> bool option"
  DEFAULT_APPBAR_HEIGHT :: jsval
  modeAppbarHeight :: "appbar_mode \<Rightarrow> jsval"

datatype error = TypeError | ColorParseError

section \<open>The render tree\<close>

datatype comp = AppbarContent | AppbarAction | AppbarBackAction | Other_Component string

text \<open>
  A child of the Appbar: a React element with its component type and its
  \<^verbatim>\<open>props.isLeading\<close> (absent reads as falsy), a text child (a string or a number), or an
  empty child (\<^verbatim>\<open>null\<close>, \<^verbatim>\<open>undefined\<close>, a boolean).
\<close>

datatype child =
    Element comp bool
  | Text_Child string
  | Empty_Child

type_synonym rest_props = "(string \<times> jsval) list"

text \<open>
  An element carries the props spread into it, its style and its children.
  \<open>RenderAppbarContent\<close> stands for the subtree that the helper
  \<^verbatim>\<open>renderAppbarContent({children, isDark, isV3, shouldCenterContent, renderOnly, mode})\<close>
  returns, kept as the call with its arguments in that order; an argument the call does
  not pass is \<open>None\<close>.
\<close>

datatype node =
    Animated_View rest_props style_prop "node list"
  | View style_prop "node list"
  | Surface_Element rest_props style_prop "node list"
  | RenderAppbarContent "child list" bool bool "bool option" "comp list option"
      "appbar_mode option"
  | Text string
  | Js_Null
  | Js_False

section \<open>Surface\<close>

datatype elevation = Static int | Animated_Elevation animated_value

text \<open>
  The elevation prop is a static level or an \<^verbatim>\<open>Animated.Value\<close>. The guard
  \<^verbatim>\<open>isAnimatedValue(elevation)\<close> (imported from \<^verbatim>\<open>styles/overlay\<close>) tells the two
  apart; in the model it is the case distinction on this type.
\<close>

text \<open>
  The destructuring \<^verbatim>\<open>const { elevation = d } = StyleSheet.flatten(style) || {}\<close>: the
  default \<open>d\<close> stands in when the flattened style has no elevation.
\<close>

definition style_elevation :: "jsval \<Rightarrow> style_prop \<Rightarrow> jsval" where
  "style_elevation d style =
     (case property (flatten_or_empty style) ''elevation'' of Undefined \<Rightarrow> d | v \<Rightarrow> v)"

text \<open>
  \<^verbatim>\<open>MD2Surface\<close>: the elevation is read from the flattened style and defaults to 4. Its
  \<^verbatim>\<open>rest\<close> props (the children among them) are spread into the view.
\<close>

definition MD2Surface :: "env \<Rightarrow> rest_props \<Rightarrow> node list \<Rightarrow> theme \<Rightarrow> style_prop \<Rightarrow> node" where
  "MD2Surface env rest children theme style =
     (let elevation = style_elevation (Num 4) style;
          isDarkTheme = th_dark theme;
          mode = th_mode theme;
          colors = th_colors theme
      in Animated_View rest
           (Styles [
              Style [(''backgroundColor'',
                 if isDarkTheme \<and> mode = Some Adaptive
                 then overlay env elevation (c_surface colors)
                 else c_surface colors)],
              if truthy elevation then shadow env elevation else Falsy,
              style])
           children)"

definition inputRange :: "int list" where
  "inputRange = [0, 1, 2, 3, 4, 5]"

text \<open>\<^verbatim>\<open>colors.elevation?.[`level${elevation}`]\<close>.\<close>

definition elevation_color :: "colors \<Rightarrow> int \<Rightarrow> jsval" where
  "elevation_color colors elevation =
     (case c_elevation colors of
        None \<Rightarrow> Undefined
      | Some table \<Rightarrow> property table (''level'' @ number_to_string elevation))"

definition backgroundColor :: "colors \<Rightarrow> elevation \<Rightarrow> jsval" where
  "backgroundColor colors elevation =
     (case elevation of
        Animated_Elevation a \<Rightarrow>
          Interpolation a inputRange (map (\<lambda>elevation. elevation_color colors elevation) inputRange)
      | Static e \<Rightarrow> elevation_color colors e)"

definition elevationLevels :: "real list list" where
  "elevationLevels = [[0, 1, 2, 3, 3, 3], [0, 3, 4, 6, 8, 10]]"

definition getElevationAndroid :: "elevation \<Rightarrow> nat \<Rightarrow> jsval" where
  "getElevationAndroid elevation layer =
     (let elevationLevel = elevationLevels ! layer
      in case elevation of
           Animated_Elevation a \<Rightarrow> Interpolation a inputRange (map Num elevationLevel)
         | Static e \<Rightarrow> index elevationLevel e)"

record shadow_output_range =
  shadowOpacity :: real
  height :: "real list"
  shadowRadius :: "real list"

definition iOSShadowOutputRanges :: "shadow_output_range list" where
  "iOSShadowOutputRanges =
     [\<lparr>shadowOpacity = 15 / 100, height = [0, 1, 2, 4, 6, 8],
        shadowRadius = [0, 3, 6, 8, 10, 12]\<rparr>,
      \<lparr>shadowOpacity = 3 / 10, height = [0, 1, 1, 1, 2, 4],
        shadowRadius = [0, 1, 2, 3, 3, 4]\<rparr>]"

definition shadowColor :: jsval where
  "shadowColor = Str ''#000''"

definition getStyleForAnimatedShadowLayer :: "animated_value \<Rightarrow> nat \<Rightarrow> style_obj" where
  "getStyleForAnimatedShadowLayer elevation layer =
     [(''shadowColor'', shadowColor),
      (''shadowOpacity'', Num (shadowOpacity (iOSShadowOutputRanges ! layer))),
      (''shadowOffset'', Obj [
         (''width'', Num 0),
         (''height'', Interpolation elevation inputRange
                        (map Num (height (iOSShadowOutputRanges ! layer))))]),
      (''shadowRadius'', Interpolation elevation inputRange
                           (map Num (shadowRadius (iOSShadowOutputRanges ! layer))))]"

definition getStyleForShadowLayer :: "int \<Rightarrow> nat \<Rightarrow> style_obj" where
  "getStyleForShadowLayer elevation layer =
     [(''shadowColor'', shadowColor),
      (''shadowOpacity'', Num (shadowOpacity (iOSShadowOutputRanges ! layer))),
      (''shadowOffset'', Obj [
         (''width'', Num 0),
         (''height'', index (height (iOSShadowOutputRanges ! layer)) elevation)]),
      (''shadowRadius'', index (shadowRadius (iOSShadowOutputRanges ! layer)) elevation)]"

text \<open>
  \<^verbatim>\<open>Surface\<close>. The \<open>theme\<close> argument is the theme that \<^verbatim>\<open>useTheme\<close> resolves. On
  Android the flattened style is destructured without a fallback, so a style that
  flattens to \<^verbatim>\<open>undefined\<close> raises a TypeError there.
\<close>

definition Surface ::
  "env \<Rightarrow> elevation option \<Rightarrow> node list \<Rightarrow> theme \<Rightarrow> style_prop \<Rightarrow> rest_props \<Rightarrow> error + node"
where
  "Surface env elevation_prop children theme style props =
     (let elevation = (case elevation_prop of None \<Rightarrow> Static 1 | Some e \<Rightarrow> e)
      in if \<not> th_isV3 theme then Inr (MD2Surface env props children theme style)
      else
        let bg = backgroundColor (th_colors theme) elevation;
            sharedStyle = Styles [Style [(''backgroundColor'', bg)], style]
        in if platform_OS env = Android then
             (case flatten style of
                None \<Rightarrow> Inl TypeError
              | Some flat \<Rightarrow>
                  let margin = property flat ''margin'';
                      padding = property flat ''padding'';
                      transform = property flat ''transform'';
                      borderRadius = property flat ''borderRadius'';
                      clearSpacing = Style [(''margin'', Num 0), (''padding'', Num 0)];
                      outerLayerStyles =
                        Style [(''margin'', margin), (''padding'', padding),
                               (''transform'', transform), (''borderRadius'', borderRadius)]
                  in Inr (Animated_View []
                       (Styles [
                          Style [(''elevation'', getElevationAndroid elevation 0),
                                 (''backgroundColor'', bg)],
                          outerLayerStyles])
                       [Animated_View []
                          (Styles [
                             Style [(''elevation'', getElevationAndroid elevation 1),
                                    (''borderRadius'', borderRadius)],
                             sharedStyle,
                             clearSpacing])
                          children]))
           else
             (case elevation of
                Animated_Elevation a \<Rightarrow>
                  Inr (Animated_View [] (Style (getStyleForAnimatedShadowLayer a 0))
                        [Animated_View [] (Style (getStyleForAnimatedShadowLayer a 1))
                           [Animated_View props sharedStyle children]])
              | Static e \<Rightarrow>
                  Inr (Animated_View [] (Style (getStyleForShadowLayer e 0))
                        [Animated_View [] (Style (getStyleForShadowLayer e 1))
                           [Animated_View props sharedStyle children]])))"

section \<open>Appbar\<close>

text \<open>\<^verbatim>\<open>StyleSheet.create\<close> of the Appbar's style sheet.\<close>

definition styles_appbar :: style_prop where
  "styles_appbar = Style [(''flexDirection'', Str ''row''), (''alignItems'', Str ''center''),
                          (''paddingHorizontal'', Num 4), (''elevation'', Num 4)]"

definition styles_spacing :: style_prop where
  "styles_spacing = Style [(''width'', Num 48)]"

definition styles_controlsRow :: style_prop where
  "styles_controlsRow = Style [(''flex'', Num 1), (''flexDirection'', Str ''row''),
                               (''alignItems'', Str ''center''),
                               (''justifyContent'', Str ''space-between'')]"

definition styles_rightActionControls :: style_prop where
  "styles_rightActionControls = Style [(''flexDirection'', Str ''row''), (''flex'', Num 1),
                                       (''justifyContent'', Str ''flex-end'')]"

definition styles_columnContainer :: style_prop where
  "styles_columnContainer = Style [(''flexDirection'', Str ''column''), (''flex'', Num 1),
                                   (''paddingTop'', Num 8)]"

definition styles_centerAlignedContainer :: style_prop where
  "styles_centerAlignedContainer = Style [(''paddingTop'', Num 0)]"

text \<open>
  The \<open>isDark\<close> flag: an explicit boolean \<open>dark\<close> wins; otherwise it is derived from the
  background colour that \<^verbatim>\<open>getAppbarColor\<close> returned.
\<close>

definition isDark :: "env \<Rightarrow> bool option \<Rightarrow> jsval \<Rightarrow> error + bool" where
  "isDark env dark bg =
     (case dark of
        Some b \<Rightarrow> Inr b
      | None \<Rightarrow>
          if bg = Str ''transparent'' then Inr False
          else (case bg of
                  Str s \<Rightarrow> (case color_isLight env s of
                              None \<Rightarrow> Inl ColorParseError
                            | Some light \<Rightarrow> Inr (\<not> light))
                | _ \<Rightarrow> Inr True))"

text \<open>
  The callback of \<^verbatim>\<open>React.Children.forEach\<close> on the state
  \<open>(hasAppbarContent, leftItemsCount, rightItemsCount)\<close>; only valid elements count.
\<close>

fun scan_child :: "bool \<times> nat \<times> nat \<Rightarrow> child \<Rightarrow> bool \<times> nat \<times> nat" where
  "scan_child (hasAppbarContent, leftItemsCount, rightItemsCount) (Element type isLeading) =
     (if type = AppbarContent then (True, leftItemsCount, rightItemsCount)
      else if hasAppbarContent then (hasAppbarContent, leftItemsCount, rightItemsCount + 1)
      else (hasAppbarContent, leftItemsCount + 1, rightItemsCount))"
| "scan_child st _ = st"

definition scan_children :: "child list \<Rightarrow> bool \<times> nat \<times> nat" where
  "scan_children children = foldl scan_child (False, 0, 0) children"

text \<open>
  The three layout flags \<open>(shouldCenterContent, shouldAddLeftSpacing, shouldAddRightSpacing)\<close>:
  all false off iOS.
\<close>

definition centering :: "os \<Rightarrow> bool \<Rightarrow> child list \<Rightarrow> bool \<times> bool \<times> bool" where
  "centering platform isV3 children =
     (if platform = Ios then
        (case scan_children children of
           (hasAppbarContent, leftItemsCount, rightItemsCount) \<Rightarrow>
             let shouldCenterContent =
                   (\<not> isV3 \<and> hasAppbarContent \<and> leftItemsCount < 2 \<and> rightItemsCount < 2)
             in (shouldCenterContent,
                 \<not> isV3 \<and> shouldCenterContent \<and> leftItemsCount = 0,
                 \<not> isV3 \<and> shouldCenterContent \<and> rightItemsCount = 0))
      else (False, False, False))"

definition isMode :: "bool \<Rightarrow> appbar_mode \<Rightarrow> appbar_mode \<Rightarrow> bool" where
  "isMode isV3 mode modeToCompare = (isV3 \<and> mode = modeToCompare)"

text \<open>
  \<^verbatim>\<open>filterAppbarActions\<close>: \<^verbatim>\<open>React.Children.toArray\<close> drops the empty children; the
  filter then reads \<^verbatim>\<open>child.props.isLeading\<close> of every remaining child, which raises a
  TypeError on a text child, which has no props.
\<close>

fun has_props :: "child \<Rightarrow> bool" where
  "has_props (Text_Child _) = False"
| "has_props _ = True"

fun props_isLeading :: "child \<Rightarrow> bool" where
  "props_isLeading (Element _ isLeading) = isLeading"
| "props_isLeading _ = False"

definition toArray :: "child list \<Rightarrow> child list" where
  "toArray children = filter (\<lambda>child. child \<noteq> Empty_Child) children"

definition filterAppbarActions :: "child list \<Rightarrow> bool \<Rightarrow> error + child list" where
  "filterAppbarActions children isLeading =
     (if list_all has_props (toArray children)
      then Inr (filter (\<lambda>child. if isLeading then props_isLeading child
                                else \<not> props_isLeading child) (toArray children))
      else Inl TypeError)"

text \<open>The two-row column container of the medium, large and center-aligned modes.\<close>

definition column_layout ::
  "child list \<Rightarrow> bool \<Rightarrow> bool \<Rightarrow> appbar_mode \<Rightarrow> error + node" where
  "column_layout children is_dark isV3 mode =
     (case filterAppbarActions children True of
        Inl e \<Rightarrow> Inl e
      | Inr leading \<Rightarrow>
          (case filterAppbarActions children False of
             Inl e \<Rightarrow> Inl e
           | Inr trailing \<Rightarrow>
               Inr (View
                 (Styles [styles_columnContainer,
                          if isMode isV3 mode Center_Aligned
                          then styles_centerAlignedContainer else Falsy])
                 [View styles_controlsRow
                    [RenderAppbarContent children is_dark isV3 None
                       (Some [AppbarBackAction]) (Some mode),
                     RenderAppbarContent leading is_dark isV3 None
                       (Some [AppbarAction]) (Some mode),
                     View styles_rightActionControls
                       [RenderAppbarContent trailing is_dark isV3 None
                          (Some [AppbarAction]) (Some mode)]],
                  RenderAppbarContent children is_dark isV3
                    (Some (isMode isV3 mode Center_Aligned))
                    (Some [AppbarContent]) (Some mode)])))"

text \<open>
  The values \<^verbatim>\<open>Appbar\<close> derives from its style: the elevation read from the flattened
  style defaults to 0 (current design version) or 4 (legacy); the background colour comes
  from the helper \<^verbatim>\<open>getAppbarColor\<close>; the style array passed on to the Surface ends
  with the rest of the flattened style.
\<close>

definition appbar_elevation :: "theme \<Rightarrow> style_prop \<Rightarrow> jsval" where
  "appbar_elevation theme style = style_elevation (Num (if th_isV3 theme then 0 else 4)) style"

definition appbar_backgroundColor :: "env \<Rightarrow> theme \<Rightarrow> style_prop \<Rightarrow> jsval" where
  "appbar_backgroundColor env theme style =
     (let customBackground = property (flatten_or_empty style) ''backgroundColor''
      in getAppbarColor env theme (appbar_elevation theme style) customBackground)"

definition appbar_style :: "env \<Rightarrow> theme \<Rightarrow> appbar_mode \<Rightarrow> style_prop \<Rightarrow> style_prop" where
  "appbar_style env theme mode style =
     (let restStyle = delete_key ''elevation''
                        (delete_key ''backgroundColor'' (flatten_or_empty style))
      in Styles [
           Style [(''backgroundColor'', appbar_backgroundColor env theme style)],
           styles_appbar,
           Style [(''height'', if th_isV3 theme then modeAppbarHeight env mode
                               else DEFAULT_APPBAR_HEIGHT env),
                  (''elevation'', appbar_elevation theme style)],
           Style restStyle])"

text \<open>\<^verbatim>\<open>Appbar\<close>: \<open>mode_prop\<close> defaults to small.\<close>

definition Appbar ::
  "env \<Rightarrow> child list \<Rightarrow> bool option \<Rightarrow> style_prop \<Rightarrow> theme \<Rightarrow> appbar_mode option \<Rightarrow>
   rest_props \<Rightarrow> error + node"
where
  "Appbar env children dark style theme mode_prop rest =
     (let mode = (case mode_prop of None \<Rightarrow> Small | Some m \<Rightarrow> m);
          isV3 = th_isV3 theme
      in case isDark env dark (appbar_backgroundColor env theme style) of
           Inl e \<Rightarrow> Inl e
         | Inr is_dark \<Rightarrow>
            (case centering (platform_OS env) isV3 children of
               (shouldCenterContent, shouldAddLeftSpacing, shouldAddRightSpacing) \<Rightarrow>
                 (case (if isMode isV3 mode Medium \<or> isMode isV3 mode Large
                           \<or> isMode isV3 mode Center_Aligned
                        then column_layout children is_dark isV3 mode
                        else Inr Js_False) of
                    Inl e \<Rightarrow> Inl e
                  | Inr column \<Rightarrow>
                      Inr (Surface_Element rest (appbar_style env theme mode style)
                        [if shouldAddLeftSpacing then View styles_spacing [] else Js_Null,
                         if \<not> isV3 \<or> isMode isV3 mode Small
                         then RenderAppbarContent children is_dark isV3
                                (Some shouldCenterContent) None None
                         else Js_False,
                         column,
                         if shouldAddRightSpacing then View styles_spacing [] else Js_Null]))))"

section \<open>Observations on a rendered tree\<close>

fun node_style :: "node \<Rightarrow> style_prop" where
  "node_style (Animated_View _ s _) = s"
| "node_style (View s _) = s"
| "node_style (Surface_Element _ s _) = s"
| "node_style _ = Falsy"

fun node_children :: "node \<Rightarrow> node list" where
  "node_children (Animated_View _ _ cs) = cs"
| "node_children (View _ cs) = cs"
| "node_children (Surface_Element _ _ cs) = cs"
| "node_children _ = []"

text \<open>The style the host applies to an element: its style prop, flattened.\<close>

definition effective_style :: "node \<Rightarrow> style_obj" where
  "effective_style n = flatten_or_empty (node_style n)"

text \<open>
  A property of the effective style of the outer container of a render result, and of
  the inner container, its only child.
\<close>

definition outer_layer_property :: "error + node \<Rightarrow> string \<Rightarrow> jsval option" where
  "outer_layer_property r key =
     (case r of Inl _ \<Rightarrow> None
      | Inr outer \<Rightarrow> Some (property (effective_style outer) key))"

definition inner_layer_property :: "error + node \<Rightarrow> string \<Rightarrow> jsval option" where
  "inner_layer_property r key =
     (case r of Inl _ \<Rightarrow> None
      | Inr outer \<Rightarrow>
          (case node_children outer of
             [inner] \<Rightarrow> Some (property (effective_style inner) key)
           | _ \<Rightarrow> None))"

text \<open>The \<^verbatim>\<open>shadowOffset.height\<close> of a shadow style.\<close>

definition shadowOffset_height :: "style_obj \<Rightarrow> jsval" where
  "shadowOffset_height s =
     (case property s ''shadowOffset'' of Obj offset \<Rightarrow> property offset ''height''
      | _ \<Rightarrow> Undefined)"

text \<open>
  Whether the tree holds the two-row layout: a plain view whose style array is the column
  container's, with or without the centered variant.
\<close>

fun is_column_style :: "style_prop \<Rightarrow> bool" where
  "is_column_style (Styles (s # _)) = (s = styles_columnContainer)"
| "is_column_style _ = False"

fun has_column_container :: "node \<Rightarrow> bool" where
  "has_column_container (View s cs) = (is_column_style s \<or> list_ex has_column_container cs)"
| "has_column_container (Animated_View _ _ cs) = list_ex has_column_container cs"
| "has_column_container (Surface_Element _ _ cs) = list_ex has_column_container cs"
| "has_column_container _ = False"

text \<open>The \<open>isDark\<close> arguments of the \<^verbatim>\<open>renderAppbarContent\<close> calls of a tree.\<close>

fun isDark_arguments :: "node \<Rightarrow> bool list" where
  "isDark_arguments (RenderAppbarContent _ is_dark _ _ _ _) = [is_dark]"
| "isDark_arguments (Animated_View _ _ cs) = concat (map isDark_arguments cs)"
| "isDark_arguments (View _ cs) = concat (map isDark_arguments cs)"
| "isDark_arguments (Surface_Element _ _ cs) = concat (map isDark_arguments cs)"
| "isDark_arguments _ = []"

section \<open>Sample inputs\<close>

definition sample_env :: "os \<Rightarrow> env" where
  "sample_env platform =
     \<lparr>platform_OS = platform,
      overlay = (\<lambda>elevation surfaceColor. Obj [(''overlay'', elevation), (''on'', surfaceColor)]),
      shadow = (\<lambda>elevation. Style [(''shadowRadius'', elevation)]),
      getAppbarColor = (\<lambda>theme elevation customBackground.
         case customBackground of Undefined \<Rightarrow> c_surface (th_colors theme) | c \<Rightarrow> c),
      color_isLight = (\<lambda>s. if s = ''#ffffff'' then Some True
                            else if s = ''#121212'' then Some False else None),
      DEFAULT_APPBAR_HEIGHT = Num 56,
      modeAppbarHeight = (\<lambda>mode. case mode of Small \<Rightarrow> Num 64 | Medium \<Rightarrow> Num 112
                                  | Large \<Rightarrow> Num 152 | Center_Aligned \<Rightarrow> Num 64)\<rparr>"

definition sample_colors :: colors where
  "sample_colors =
     \<lparr>c_surface = Str ''#121212'',
      c_elevation = Some [(''level0'', Str ''transparent''), (''level1'', Str ''#f7f2f9''),
                          (''level2'', Str ''#f3edf6''), (''level3'', Str ''#eee8f4''),
                          (''level4'', Str ''#ece6f3''), (''level5'', Str ''#e9e3f1'')]\<rparr>"

definition sample_theme :: "bool \<Rightarrow> theme" where
  "sample_theme isV3 =
     \<lparr>th_dark = True, th_mode = Some Adaptive, th_isV3 = isV3, th_colors = sample_colors\<rparr>"

section \<open>Objects and flattening\<close>

lemma property_Nil: "property [] key = Undefined"
  by (simp add: property_def)

lemma property_Cons:
  "property (kv # obj) key =
     (if key \<in> fst ` set obj then property obj key
      else if key = fst kv then snd kv else Undefined)"
proof (cases "map_of (rev obj) key")
  case None
  then have "key \<notin> fst ` set obj"
    by (metis map_of_eq_None_iff set_rev)
  with None show ?thesis
    by (cases kv) (simp add: property_def map_add_def)
next
  case (Some v)
  then have "key \<in> fst ` set obj"
    by (metis map_of_eq_None_iff option.distinct(1) set_rev)
  with Some show ?thesis
    by (simp add: property_def map_add_def)
qed

lemma property_absent: "key \<notin> fst ` set obj \<Longrightarrow> property obj key = Undefined"
  by (induction obj) (auto simp: property_Nil property_Cons)

lemma keys_delete_key: "fst ` set (delete_key k obj) = fst ` set obj - {k}"
  by (auto simp: delete_key_def image_iff)

lemma keys_set_key: "fst ` set (set_key k v obj) = insert k (fst ` set obj)"
  by (auto simp: set_key_def keys_delete_key)

lemma property_delete_key:
  "property (delete_key k obj) key = (if key = k then Undefined else property obj key)"
proof (induction obj)
  case Nil
  show ?case by (simp add: delete_key_def property_Nil)
next
  case (Cons kv obj)
  have eq: "delete_key k (kv # obj) =
      (if fst kv = k then delete_key k obj else kv # delete_key k obj)"
    by (cases kv) (simp add: delete_key_def)
  show ?case
    using Cons.IH by (auto simp: eq property_Cons keys_delete_key property_absent)
qed

lemma property_append_single:
  "property (obj @ [(k, v)]) key = (if key = k then v else property obj key)"
  by (simp add: property_def)

lemma property_set_key:
  "property (set_key k v obj) key = (if key = k then v else property obj key)"
  by (simp add: set_key_def property_append_single property_delete_key)

lemma keys_assign: "fst ` set (assign result c) = fst ` set result \<union> fst ` set c"
  by (induction result c rule: assign.induct) (auto simp: keys_set_key)

lemma property_assign:
  "property (assign result c) key =
     (if key \<in> fst ` set c then property c key else property result key)"
  by (induction result c rule: assign.induct)
     (auto simp: property_set_key property_Cons keys_assign)


section \<open>The shape of a rendered Surface\<close>

lemma Surface_without_elevation:
  "Surface env None children theme style props =
   Surface env (Some (Static 1)) children theme style props"
  by (simp add: Surface_def)

lemma Surface_legacy:
  "\<not> th_isV3 theme \<Longrightarrow>
   Surface env elevation children theme style props =
   Inr (Animated_View props
          (Styles [
             Style [(''backgroundColor'',
                if th_dark theme \<and> th_mode theme = Some Adaptive
                then overlay env (style_elevation (Num 4) style) (c_surface (th_colors theme))
                else c_surface (th_colors theme))],
             if truthy (style_elevation (Num 4) style)
             then shadow env (style_elevation (Num 4) style) else Falsy,
             style])
          children)"
  by (simp add: Surface_def MD2Surface_def Let_def)

lemma Surface_android:
  "th_isV3 theme \<Longrightarrow> platform_OS env = Android \<Longrightarrow> flatten style = Some flat \<Longrightarrow>
   Surface env (Some elevation) children theme style props =
   Inr (Animated_View []
          (Styles [
             Style [(''elevation'', getElevationAndroid elevation 0),
                    (''backgroundColor'', backgroundColor (th_colors theme) elevation)],
             Style [(''margin'', property flat ''margin''),
                    (''padding'', property flat ''padding''),
                    (''transform'', property flat ''transform''),
                    (''borderRadius'', property flat ''borderRadius'')]])
          [Animated_View []
             (Styles [
                Style [(''elevation'', getElevationAndroid elevation 1),
                       (''borderRadius'', property flat ''borderRadius'')],
                Styles [Style [(''backgroundColor'',
                                backgroundColor (th_colors theme) elevation)], style],
                Style [(''margin'', Num 0), (''padding'', Num 0)]])
             children])"
  by (simp add: Surface_def Let_def)

lemma Surface_android_undefined_style:
  "th_isV3 theme \<Longrightarrow> platform_OS env = Android \<Longrightarrow> flatten style = None \<Longrightarrow>
   Surface env elevation children theme style props = Inl TypeError"
  by (simp add: Surface_def Let_def)

lemma Surface_shadow_animated:
  "th_isV3 theme \<Longrightarrow> platform_OS env \<noteq> Android \<Longrightarrow>
   Surface env (Some (Animated_Elevation a)) children theme style props =
   Inr (Animated_View [] (Style (getStyleForAnimatedShadowLayer a 0))
          [Animated_View [] (Style (getStyleForAnimatedShadowLayer a 1))
             [Animated_View props
                (Styles [Style [(''backgroundColor'',
                           backgroundColor (th_colors theme) (Animated_Elevation a))], style])
                children]])"
  by (simp add: Surface_def Let_def)

lemma Surface_shadow_static:
  "th_isV3 theme \<Longrightarrow> platform_OS env \<noteq> Android \<Longrightarrow>
   Surface env (Some (Static e)) children theme style props =
   Inr (Animated_View [] (Style (getStyleForShadowLayer e 0))
          [Animated_View [] (Style (getStyleForShadowLayer e 1))
             [Animated_View props
                (Styles [Style [(''backgroundColor'',
                           backgroundColor (th_colors theme) (Static e))], style])
                children]])"
  by (simp add: Surface_def Let_def)

lemma flatten_inner_layer:
  "flatten style = Some flat \<Longrightarrow>
   flatten (Styles [Style a, Styles [Style b, style], Style c]) =
   Some (assign (assign (assign [] a) (assign (assign [] b) flat)) c)"
  by simp

section \<open>Surface on the layered-elevation platform\<close>

text \<open>
  Without a style the Android branch of the current design version does not render: the
  flattened style is \<^verbatim>\<open>undefined\<close> and its destructuring raises.
\<close>

lemma surface_android_without_style:
  "Surface (sample_env Android) (Some (Static 2)) [Text ''content''] (sample_theme True)
     Falsy [] = Inl TypeError"
  by (simp add: Surface_def Let_def sample_theme_def sample_env_def)

text \<open>
  Claim C1, as amended. In the current design version on Android, for every style that
  flattens to an object, Surface renders two nested containers. The outer one carries
  the margin, padding, transform and border radius of the flattened style. On the inner
  one margin and padding are 0, and its border radius is the flattened style's, the same
  as on the outer container.
\<close>

theorem surface_android_layers:
  assumes v3: "th_isV3 theme" and android: "platform_OS env = Android"
    and flat: "flatten style = Some flat"
  shows "(\<exists>outer_style inner_style.
            Surface env elevation_prop children theme style props =
            Inr (Animated_View [] outer_style [Animated_View [] inner_style children]))
       \<and> outer_layer_property (Surface env elevation_prop children theme style props) ''margin''
           = Some (property flat ''margin'')
       \<and> outer_layer_property (Surface env elevation_prop children theme style props) ''padding''
           = Some (property flat ''padding'')
       \<and> outer_layer_property (Surface env elevation_prop children theme style props) ''transform''
           = Some (property flat ''transform'')
       \<and> outer_layer_property (Surface env elevation_prop children theme style props)
           ''borderRadius'' = Some (property flat ''borderRadius'')
       \<and> inner_layer_property (Surface env elevation_prop children theme style props) ''margin''
           = Some (Num 0)
       \<and> inner_layer_property (Surface env elevation_prop children theme style props) ''padding''
           = Some (Num 0)
       \<and> inner_layer_property (Surface env elevation_prop children theme style props)
           ''borderRadius'' = Some (property flat ''borderRadius'')"
proof -
  obtain elevation where el: "Surface env elevation_prop children theme style props =
      Surface env (Some elevation) children theme style props"
    by (cases elevation_prop) (auto simp: Surface_without_elevation)
  note tree = el [unfolded Surface_android [OF v3 android flat, of elevation children props]]
  have outer: "outer_layer_property (Surface env elevation_prop children theme style props) key
      = Some (property flat key)"
    if "key \<in> {''margin'', ''padding'', ''transform'', ''borderRadius''}" for key
    using that
    by (auto simp: tree outer_layer_property_def effective_style_def flatten_or_empty_def
        property_assign property_set_key keys_set_key property_Cons property_Nil)
  have inner_m: "inner_layer_property (Surface env elevation_prop children theme style props)
      ''margin'' = Some (Num 0)"
    by (simp add: tree inner_layer_property_def effective_style_def flatten_or_empty_def
        flatten_inner_layer [OF flat] property_assign property_set_key keys_set_key property_Cons property_Nil
        del: flatten.simps)
  have inner_p: "inner_layer_property (Surface env elevation_prop children theme style props)
      ''padding'' = Some (Num 0)"
    by (simp add: tree inner_layer_property_def effective_style_def flatten_or_empty_def
        flatten_inner_layer [OF flat] property_assign property_set_key keys_set_key property_Cons property_Nil
        del: flatten.simps)
  have inner_b: "inner_layer_property (Surface env elevation_prop children theme style props)
      ''borderRadius'' = Some (property flat ''borderRadius'')"
    by (simp add: tree inner_layer_property_def effective_style_def flatten_or_empty_def
        flatten_inner_layer [OF flat] property_assign property_set_key keys_set_key property_Cons property_Nil keys_assign
        property_absent del: flatten.simps)
  show ?thesis
    using outer inner_m inner_p inner_b by (simp add: tree)
qed


theorem surface_android_layers_witness:
  "th_isV3 (sample_theme True) \<and> platform_OS (sample_env Android) = Android
   \<and> flatten (Style [(''margin'', Num 16), (''borderRadius'', Num 8)])
       = Some [(''margin'', Num 16), (''borderRadius'', Num 8)]
   \<and> outer_layer_property
         (Surface (sample_env Android) (Some (Static 2)) [Text ''content''] (sample_theme True)
            (Style [(''margin'', Num 16), (''borderRadius'', Num 8)]) []) ''margin''
       = Some (Num 16)
   \<and> inner_layer_property
         (Surface (sample_env Android) (Some (Static 2)) [Text ''content''] (sample_theme True)
            (Style [(''margin'', Num 16), (''borderRadius'', Num 8)]) []) ''margin''
       = Some (Num 0)
   \<and> inner_layer_property
         (Surface (sample_env Android) (Some (Static 2)) [Text ''content''] (sample_theme True)
            (Style [(''margin'', Num 16), (''borderRadius'', Num 8)]) []) ''borderRadius''
       = Some (Num 8)"
  using surface_android_layers [where theme = "sample_theme True"
      and env = "sample_env Android"
      and style = "Style [(''margin'', Num 16), (''borderRadius'', Num 8)]"
      and flat = "[(''margin'', Num 16), (''borderRadius'', Num 8)]"
      and elevation_prop = "Some (Static 2)" and children = "[Text ''content'']"
      and props = "[]"]
  by (simp add: sample_theme_def sample_env_def property_def)

text \<open>
  Claim C1, as stated, fails: with a border radius of 8 and a rotation in the style, the
  inner container still has that border radius and that transform; neither is zeroed.
\<close>

theorem surface_inner_layer_keeps_radius_and_transform:
  "inner_layer_property
     (Surface (sample_env Android) (Some (Static 2)) [Text ''content''] (sample_theme True)
        (Style [(''borderRadius'', Num 8),
                (''transform'', Arr [Obj [(''rotate'', Str ''45deg'')]])]) [])
     ''borderRadius'' = Some (Num 8)
   \<and> inner_layer_property
     (Surface (sample_env Android) (Some (Static 2)) [Text ''content''] (sample_theme True)
        (Style [(''borderRadius'', Num 8),
                (''transform'', Arr [Obj [(''rotate'', Str ''45deg'')]])]) [])
     ''transform'' = Some (Arr [Obj [(''rotate'', Str ''45deg'')]])"
  by (simp add: Surface_def Let_def sample_theme_def sample_env_def inner_layer_property_def
      effective_style_def flatten_or_empty_def property_def set_key_def delete_key_def)

section \<open>The background colour of a Surface\<close>

lemma level_keys:
  "0 \<le> e \<Longrightarrow> e \<le> 5 \<Longrightarrow>
   ''level'' @ number_to_string e =
   [''level0'', ''level1'', ''level2'', ''level3'', ''level4'', ''level5''] ! nat e"
proof -
  assume "0 \<le> e" "e \<le> 5"
  then consider "e = 0" | "e = 1" | "e = 2" | "e = 3" | "e = 4" | "e = 5"
    by arith
  then show ?thesis
    by cases (simp_all add: number_to_string_def)
qed

text \<open>
  Claim C2. For a static elevation \<open>e\<close> from 0 to 5, the background colour that Surface
  computes in the current design version is the entry \<open>level e\<close> of the theme's elevation
  table, and it is the colour put on the rendered containers on both platforms. In the
  legacy design version the colour is the overlay helper's result on the surface colour
  when the theme is dark and adaptive, and the plain surface colour otherwise; the
  elevation given to the overlay is the one of the style (4 by default). Surface is a
  function of its inputs, so equal inputs give the same colour.
\<close>

theorem surface_static_background:
  assumes "0 \<le> e" and "e \<le> 5"
  shows "backgroundColor (th_colors theme) (Static e) =
           (case c_elevation (th_colors theme) of
              None \<Rightarrow> Undefined
            | Some table \<Rightarrow>
                property table
                  ([''level0'', ''level1'', ''level2'', ''level3'', ''level4'', ''level5''] ! nat e))
       \<and> (th_isV3 theme \<and> platform_OS env = Android \<and> flatten style = Some flat \<longrightarrow>
            outer_layer_property (Surface env (Some (Static e)) children theme style props)
              ''backgroundColor'' = Some (backgroundColor (th_colors theme) (Static e))
            \<and> (\<exists>outer_style inner_elevation.
                  Surface env (Some (Static e)) children theme style props =
                  Inr (Animated_View [] outer_style
                        [Animated_View []
                           (Styles [
                              inner_elevation,
                              Styles [Style [(''backgroundColor'',
                                        backgroundColor (th_colors theme) (Static e))], style],
                              Style [(''margin'', Num 0), (''padding'', Num 0)]])
                           children])))
       \<and> (th_isV3 theme \<and> platform_OS env \<noteq> Android \<longrightarrow>
            Surface env (Some (Static e)) children theme style props =
            Inr (Animated_View [] (Style (getStyleForShadowLayer e 0))
                  [Animated_View [] (Style (getStyleForShadowLayer e 1))
                     [Animated_View props
                        (Styles [Style [(''backgroundColor'',
                                   backgroundColor (th_colors theme) (Static e))], style])
                        children]]))
       \<and> (\<not> th_isV3 theme \<longrightarrow>
            Surface env (Some (Static e)) children theme style props =
            Inr (Animated_View props
                  (Styles [
                     Style [(''backgroundColor'',
                        if th_dark theme \<and> th_mode theme = Some Adaptive
                        then overlay env (style_elevation (Num 4) style)
                               (c_surface (th_colors theme))
                        else c_surface (th_colors theme))],
                     if truthy (style_elevation (Num 4) style)
                     then shadow env (style_elevation (Num 4) style) else Falsy,
                     style])
                  children))"
proof -
  have table: "backgroundColor (th_colors theme) (Static e) =
           (case c_elevation (th_colors theme) of
              None \<Rightarrow> Undefined
            | Some table \<Rightarrow>
                property table
                  ([''level0'', ''level1'', ''level2'', ''level3'', ''level4'', ''level5''] ! nat e))"
    using level_keys [OF assms]
    by (simp add: backgroundColor_def elevation_color_def split: option.splits)
  have android: "outer_layer_property (Surface env (Some (Static e)) children theme style props)
              ''backgroundColor'' = Some (backgroundColor (th_colors theme) (Static e))"
    if "th_isV3 theme" "platform_OS env = Android" "flatten style = Some flat"
    by (simp add: Surface_android [OF that] outer_layer_property_def effective_style_def
        flatten_or_empty_def property_set_key)
  show ?thesis
    using table android
    by (simp add: Surface_android Surface_shadow_static Surface_legacy)
qed

theorem surface_static_background_witness:
  "(0::int) \<le> 3 \<and> (3::int) \<le> 5
   \<and> backgroundColor (th_colors (sample_theme True)) (Static 3) = Str ''#eee8f4''
   \<and> outer_layer_property
        (Surface (sample_env Android) (Some (Static 3)) [] (sample_theme True) (Style []) [])
        ''backgroundColor'' = Some (Str ''#eee8f4'')
   \<and> Surface (sample_env Ios) (Some (Static 3)) [] (sample_theme False) Falsy [] =
       Inr (Animated_View []
              (Styles [
                 Style [(''backgroundColor'',
                         Obj [(''overlay'', Num 4), (''on'', Str ''#121212'')])],
                 Style [(''shadowRadius'', Num 4)],
                 Falsy])
              [])
   \<and> Surface (sample_env Ios) (Some (Static 3)) [] (sample_theme True) Falsy [] =
       Inr (Animated_View [] (Style (getStyleForShadowLayer 3 0))
              [Animated_View [] (Style (getStyleForShadowLayer 3 1))
                 [Animated_View []
                    (Styles [Style [(''backgroundColor'', Str ''#eee8f4'')], Falsy]) []]])"
  using surface_static_background [where e = 3 and theme = "sample_theme True"
      and env = "sample_env Android" and style = "Style []" and flat = "[]"
      and children = "[]" and props = "[]"]
    surface_static_background [where e = 3 and theme = "sample_theme True"
      and env = "sample_env Ios" and style = Falsy and children = "[]" and props = "[]"]
    surface_static_background [where e = 3 and theme = "sample_theme False"
      and env = "sample_env Ios" and style = Falsy and children = "[]" and props = "[]"]
  by (simp add: sample_theme_def sample_env_def sample_colors_def property_def
      style_elevation_def flatten_or_empty_def)


section \<open>Animated elevation\<close>

lemma backgroundColor_animated:
  "backgroundColor colors (Animated_Elevation a) =
   Interpolation a [0, 1, 2, 3, 4, 5]
     (map (\<lambda>e. backgroundColor colors (Static e)) [0, 1, 2, 3, 4, 5])"
  by (simp add: backgroundColor_def inputRange_def)

lemma getElevationAndroid_animated:
  "layer < 2 \<Longrightarrow>
   getElevationAndroid (Animated_Elevation a) layer =
   Interpolation a [0, 1, 2, 3, 4, 5]
     (map (\<lambda>e. getElevationAndroid (Static e) layer) [0, 1, 2, 3, 4, 5])"
proof -
  assume "layer < 2"
  then consider "layer = 0" | "layer = 1" by arith
  then show ?thesis
    by cases (simp_all add: getElevationAndroid_def elevationLevels_def inputRange_def index_def)
qed

lemma animated_shadow_height:
  "layer < 2 \<Longrightarrow>
   shadowOffset_height (getStyleForAnimatedShadowLayer a layer) =
   Interpolation a [0, 1, 2, 3, 4, 5]
     (map (\<lambda>e. shadowOffset_height (getStyleForShadowLayer e layer)) [0, 1, 2, 3, 4, 5])"
proof -
  assume "layer < 2"
  then consider "layer = 0" | "layer = 1" by arith
  then show ?thesis
    by cases (simp_all add: getStyleForAnimatedShadowLayer_def getStyleForShadowLayer_def
        shadowOffset_height_def iOSShadowOutputRanges_def inputRange_def index_def property_def)
qed

lemma animated_shadow_radius:
  "layer < 2 \<Longrightarrow>
   property (getStyleForAnimatedShadowLayer a layer) ''shadowRadius'' =
   Interpolation a [0, 1, 2, 3, 4, 5]
     (map (\<lambda>e. property (getStyleForShadowLayer e layer) ''shadowRadius'') [0, 1, 2, 3, 4, 5])"
proof -
  assume "layer < 2"
  then consider "layer = 0" | "layer = 1" by arith
  then show ?thesis
    by cases (simp_all add: getStyleForAnimatedShadowLayer_def getStyleForShadowLayer_def
        iOSShadowOutputRanges_def inputRange_def index_def property_def)
qed

text \<open>
  Claim C3. With an animated elevation, the background colour, the elevation of both
  Android layers and the shadow height and radius of both iOS layers are interpolation
  nodes over the input range 0 to 5, and the output table of each is the static lookup
  taken at 0, 1, 2, 3, 4 and 5. On Android the two containers carry these values, for a
  static and an animated elevation alike; elsewhere the two shadow wrappers carry the
  animated or the static shadow style.
\<close>

theorem surface_animated_interpolation:
  "backgroundColor (th_colors theme) (Animated_Elevation a) =
     Interpolation a [0, 1, 2, 3, 4, 5]
       (map (\<lambda>e. backgroundColor (th_colors theme) (Static e)) [0, 1, 2, 3, 4, 5])
   \<and> (\<forall>layer < 2.
         getElevationAndroid (Animated_Elevation a) layer =
           Interpolation a [0, 1, 2, 3, 4, 5]
             (map (\<lambda>e. getElevationAndroid (Static e) layer) [0, 1, 2, 3, 4, 5])
       \<and> shadowOffset_height (getStyleForAnimatedShadowLayer a layer) =
           Interpolation a [0, 1, 2, 3, 4, 5]
             (map (\<lambda>e. shadowOffset_height (getStyleForShadowLayer e layer))
                [0, 1, 2, 3, 4, 5])
       \<and> property (getStyleForAnimatedShadowLayer a layer) ''shadowRadius'' =
           Interpolation a [0, 1, 2, 3, 4, 5]
             (map (\<lambda>e. property (getStyleForShadowLayer e layer) ''shadowRadius'')
                [0, 1, 2, 3, 4, 5]))
   \<and> (th_isV3 theme \<and> platform_OS env = Android \<and> flatten style = Some flat \<longrightarrow>
        (\<forall>elevation.
           outer_layer_property (Surface env (Some elevation) children theme style props)
             ''elevation'' = Some (getElevationAndroid elevation 0)
         \<and> outer_layer_property (Surface env (Some elevation) children theme style props)
             ''backgroundColor'' = Some (backgroundColor (th_colors theme) elevation)
         \<and> (\<exists>outer_style.
               Surface env (Some elevation) children theme style props =
               Inr (Animated_View [] outer_style
                     [Animated_View []
                        (Styles [
                           Style [(''elevation'', getElevationAndroid elevation 1),
                                  (''borderRadius'', property flat ''borderRadius'')],
                           Styles [Style [(''backgroundColor'',
                                     backgroundColor (th_colors theme) elevation)], style],
                           Style [(''margin'', Num 0), (''padding'', Num 0)]])
                        children]))))
   \<and> (th_isV3 theme \<and> platform_OS env \<noteq> Android \<longrightarrow>
        Surface env (Some (Animated_Elevation a)) children theme style props =
          Inr (Animated_View [] (Style (getStyleForAnimatedShadowLayer a 0))
                [Animated_View [] (Style (getStyleForAnimatedShadowLayer a 1))
                   [Animated_View props
                      (Styles [Style [(''backgroundColor'',
                                 backgroundColor (th_colors theme) (Animated_Elevation a))],
                               style])
                      children]])
        \<and> (\<forall>e. Surface env (Some (Static e)) children theme style props =
          Inr (Animated_View [] (Style (getStyleForShadowLayer e 0))
                [Animated_View [] (Style (getStyleForShadowLayer e 1))
                   [Animated_View props
                      (Styles [Style [(''backgroundColor'',
                                 backgroundColor (th_colors theme) (Static e))], style])
                      children]])))"
proof -
  have layers: "getElevationAndroid (Animated_Elevation a) layer =
           Interpolation a [0, 1, 2, 3, 4, 5]
             (map (\<lambda>e. getElevationAndroid (Static e) layer) [0, 1, 2, 3, 4, 5])
       \<and> shadowOffset_height (getStyleForAnimatedShadowLayer a layer) =
           Interpolation a [0, 1, 2, 3, 4, 5]
             (map (\<lambda>e. shadowOffset_height (getStyleForShadowLayer e layer))
                [0, 1, 2, 3, 4, 5])
       \<and> property (getStyleForAnimatedShadowLayer a layer) ''shadowRadius'' =
           Interpolation a [0, 1, 2, 3, 4, 5]
             (map (\<lambda>e. property (getStyleForShadowLayer e layer) ''shadowRadius'')
                [0, 1, 2, 3, 4, 5])"
    if "layer < 2" for layer
    using getElevationAndroid_animated [OF that] animated_shadow_height [OF that]
      animated_shadow_radius [OF that]
    by blast
  have android: "outer_layer_property (Surface env (Some elevation) children theme style props)
             ''elevation'' = Some (getElevationAndroid elevation 0)
         \<and> outer_layer_property (Surface env (Some elevation) children theme style props)
             ''backgroundColor'' = Some (backgroundColor (th_colors theme) elevation)
         \<and> (\<exists>outer_style.
               Surface env (Some elevation) children theme style props =
               Inr (Animated_View [] outer_style
                     [Animated_View []
                        (Styles [
                           Style [(''elevation'', getElevationAndroid elevation 1),
                                  (''borderRadius'', property flat ''borderRadius'')],
                           Styles [Style [(''backgroundColor'',
                                     backgroundColor (th_colors theme) elevation)], style],
                           Style [(''margin'', Num 0), (''padding'', Num 0)]])
                        children]))"
    if "th_isV3 theme" "platform_OS env = Android" "flatten style = Some flat" for elevation
    by (simp add: Surface_android [OF that] outer_layer_property_def effective_style_def
        flatten_or_empty_def property_set_key)
  show ?thesis
    using backgroundColor_animated [of "th_colors theme" a] layers android
      Surface_shadow_animated [of theme env a children style props]
      Surface_shadow_static [of theme env _ children style props]
    by blast
qed


theorem surface_animated_interpolation_witness:
  "(1::nat) < 2
   \<and> getElevationAndroid (Animated_Elevation (Animated_Value 7)) 1 =
       Interpolation (Animated_Value 7) [0, 1, 2, 3, 4, 5]
         [Num 0, Num 3, Num 4, Num 6, Num 8, Num 10]
   \<and> getElevationAndroid (Static 4) 1 = Num 8
   \<and> th_isV3 (sample_theme True) \<and> platform_OS (sample_env Android) = Android
   \<and> flatten (Style [(''padding'', Num 8)]) = Some [(''padding'', Num 8)]
   \<and> outer_layer_property
        (Surface (sample_env Android) (Some (Animated_Elevation (Animated_Value 7))) []
           (sample_theme True) (Style [(''padding'', Num 8)]) []) ''elevation''
       = Some (Interpolation (Animated_Value 7) [0, 1, 2, 3, 4, 5]
                 [Num 0, Num 1, Num 2, Num 3, Num 3, Num 3])
   \<and> platform_OS (sample_env Ios) \<noteq> Android
   \<and> Surface (sample_env Ios) (Some (Animated_Elevation (Animated_Value 7))) []
        (sample_theme True) Falsy [] =
       Inr (Animated_View []
             (Style [(''shadowColor'', Str ''#000''), (''shadowOpacity'', Num (15 / 100)),
                     (''shadowOffset'', Obj [(''width'', Num 0),
                        (''height'', Interpolation (Animated_Value 7) [0, 1, 2, 3, 4, 5]
                                       [Num 0, Num 1, Num 2, Num 4, Num 6, Num 8])]),
                     (''shadowRadius'', Interpolation (Animated_Value 7) [0, 1, 2, 3, 4, 5]
                                          [Num 0, Num 3, Num 6, Num 8, Num 10, Num 12])])
             [Animated_View []
                (Style [(''shadowColor'', Str ''#000''), (''shadowOpacity'', Num (3 / 10)),
                        (''shadowOffset'', Obj [(''width'', Num 0),
                           (''height'', Interpolation (Animated_Value 7) [0, 1, 2, 3, 4, 5]
                                          [Num 0, Num 1, Num 1, Num 1, Num 2, Num 4])]),
                        (''shadowRadius'', Interpolation (Animated_Value 7) [0, 1, 2, 3, 4, 5]
                                             [Num 0, Num 1, Num 2, Num 3, Num 3, Num 4])])
                [Animated_View []
                   (Styles [Style [(''backgroundColor'',
                      Interpolation (Animated_Value 7) [0, 1, 2, 3, 4, 5]
                        [Str ''transparent'', Str ''#f7f2f9'', Str ''#f3edf6'', Str ''#eee8f4'',
                         Str ''#ece6f3'', Str ''#e9e3f1''])], Falsy])
                   []]])"
  using surface_animated_interpolation [where a = "Animated_Value 7"
      and theme = "sample_theme True" and env = "sample_env Android"
      and style = "Style [(''padding'', Num 8)]" and flat = "[(''padding'', Num 8)]"
      and children = "[]" and props = "[]"]
    surface_animated_interpolation [where a = "Animated_Value 7"
      and theme = "sample_theme True" and env = "sample_env Ios"
      and style = Falsy and children = "[]" and props = "[]"]
  by (simp add: sample_theme_def sample_env_def sample_colors_def property_def
      getElevationAndroid_def elevationLevels_def index_def inputRange_def
      getStyleForAnimatedShadowLayer_def iOSShadowOutputRanges_def shadowColor_def
      backgroundColor_def elevation_color_def number_to_string_def)

section \<open>Default elevation\<close>

lemma level1_color:
  "backgroundColor (th_colors theme) (Static 1) =
     (case c_elevation (th_colors theme) of
        None \<Rightarrow> Undefined | Some table \<Rightarrow> property table ''level1'')"
  by (simp add: backgroundColor_def elevation_color_def number_to_string_def
      split: option.splits)

lemma style_elevation_cases:
  "style_elevation d style =
     (case flatten style of
        None \<Rightarrow> d
      | Some flat \<Rightarrow> (if property flat ''elevation'' = Undefined then d
                      else property flat ''elevation''))"
  by (cases "flatten style")
     (auto simp: style_elevation_def flatten_or_empty_def property_Nil split: jsval.splits)

text \<open>
  Claim C6. Without an elevation prop the current design version renders the tree of
  elevation 1: the shadow wrappers have the heights and radii of index 1 of their tables,
  the Android layers the elevations 1 and 3, and the colour is the table entry
  \<open>level1\<close>. In the legacy design version the elevation prop plays no part: the
  elevation given to the overlay and to the shadow is the \<open>elevation\<close> of the flattened
  style, and it is 4 when the style flattens to nothing or has no elevation.
\<close>

theorem surface_default_elevation:
  "Surface env None children theme style props =
     Surface env (Some (Static 1)) children theme style props
   \<and> (th_isV3 theme \<and> platform_OS env \<noteq> Android \<longrightarrow>
      Surface env None children theme style props =
      Inr (Animated_View []
             (Style [(''shadowColor'', Str ''#000''), (''shadowOpacity'', Num (15 / 100)),
                     (''shadowOffset'', Obj [(''width'', Num 0), (''height'', Num 1)]),
                     (''shadowRadius'', Num 3)])
             [Animated_View []
                (Style [(''shadowColor'', Str ''#000''), (''shadowOpacity'', Num (3 / 10)),
                        (''shadowOffset'', Obj [(''width'', Num 0), (''height'', Num 1)]),
                        (''shadowRadius'', Num 1)])
                [Animated_View props
                   (Styles [Style [(''backgroundColor'',
                              case c_elevation (th_colors theme) of
                                None \<Rightarrow> Undefined
                              | Some table \<Rightarrow> property table ''level1'')],
                            style])
                   children]]))
   \<and> (th_isV3 theme \<and> platform_OS env = Android \<and> flatten style = Some flat \<longrightarrow>
      Surface env None children theme style props =
      Inr (Animated_View []
             (Styles [
                Style [(''elevation'', Num 1),
                       (''backgroundColor'',
                          case c_elevation (th_colors theme) of
                            None \<Rightarrow> Undefined
                          | Some table \<Rightarrow> property table ''level1'')],
                Style [(''margin'', property flat ''margin''),
                       (''padding'', property flat ''padding''),
                       (''transform'', property flat ''transform''),
                       (''borderRadius'', property flat ''borderRadius'')]])
             [Animated_View []
                (Styles [
                   Style [(''elevation'', Num 3),
                          (''borderRadius'', property flat ''borderRadius'')],
                   Styles [Style [(''backgroundColor'',
                              case c_elevation (th_colors theme) of
                                None \<Rightarrow> Undefined
                              | Some table \<Rightarrow> property table ''level1'')],
                           style],
                   Style [(''margin'', Num 0), (''padding'', Num 0)]])
                children]))
   \<and> (\<not> th_isV3 theme
        \<and> elevation = (case flatten style of
                          None \<Rightarrow> Num 4
                        | Some flat \<Rightarrow> (if property flat ''elevation'' = Undefined then Num 4
                                        else property flat ''elevation'')) \<longrightarrow>
      Surface env elevation_prop children theme style props =
      Inr (Animated_View props
             (Styles [
                Style [(''backgroundColor'',
                   if th_dark theme \<and> th_mode theme = Some Adaptive
                   then overlay env elevation (c_surface (th_colors theme))
                   else c_surface (th_colors theme))],
                if truthy elevation then shadow env elevation else Falsy,
                style])
             children))"
proof -
  have shadows: "Surface env None children theme style props =
      Inr (Animated_View []
             (Style [(''shadowColor'', Str ''#000''), (''shadowOpacity'', Num (15 / 100)),
                     (''shadowOffset'', Obj [(''width'', Num 0), (''height'', Num 1)]),
                     (''shadowRadius'', Num 3)])
             [Animated_View []
                (Style [(''shadowColor'', Str ''#000''), (''shadowOpacity'', Num (3 / 10)),
                        (''shadowOffset'', Obj [(''width'', Num 0), (''height'', Num 1)]),
                        (''shadowRadius'', Num 1)])
                [Animated_View props
                   (Styles [Style [(''backgroundColor'',
                              case c_elevation (th_colors theme) of
                                None \<Rightarrow> Undefined
                              | Some table \<Rightarrow> property table ''level1'')],
                            style])
                   children]])"
    if "th_isV3 theme" "platform_OS env \<noteq> Android"
    by (simp add: Surface_without_elevation Surface_shadow_static [OF that] level1_color
        getStyleForShadowLayer_def iOSShadowOutputRanges_def shadowColor_def index_def)
  have layers: "Surface env None children theme style props =
      Inr (Animated_View []
             (Styles [
                Style [(''elevation'', Num 1),
                       (''backgroundColor'',
                          case c_elevation (th_colors theme) of
                            None \<Rightarrow> Undefined
                          | Some table \<Rightarrow> property table ''level1'')],
                Style [(''margin'', property flat ''margin''),
                       (''padding'', property flat ''padding''),
                       (''transform'', property flat ''transform''),
                       (''borderRadius'', property flat ''borderRadius'')]])
             [Animated_View []
                (Styles [
                   Style [(''elevation'', Num 3),
                          (''borderRadius'', property flat ''borderRadius'')],
                   Styles [Style [(''backgroundColor'',
                              case c_elevation (th_colors theme) of
                                None \<Rightarrow> Undefined
                              | Some table \<Rightarrow> property table ''level1'')],
                           style],
                   Style [(''margin'', Num 0), (''padding'', Num 0)]])
                children])"
    if "th_isV3 theme" "platform_OS env = Android" "flatten style = Some flat"
    by (simp add: Surface_without_elevation Surface_android [OF that] level1_color
        getElevationAndroid_def elevationLevels_def index_def)
  have legacy: "Surface env elevation_prop children theme style props =
      Inr (Animated_View props
             (Styles [
                Style [(''backgroundColor'',
                   if th_dark theme \<and> th_mode theme = Some Adaptive
                   then overlay env elevation (c_surface (th_colors theme))
                   else c_surface (th_colors theme))],
                if truthy elevation then shadow env elevation else Falsy,
                style])
             children)"
    if "\<not> th_isV3 theme"
      "elevation = (case flatten style of
                          None \<Rightarrow> Num 4
                        | Some flat \<Rightarrow> (if property flat ''elevation'' = Undefined then Num 4
                                        else property flat ''elevation''))"
    using that(2) by (simp add: Surface_legacy [OF that(1)] style_elevation_cases)
  from Surface_without_elevation [of env children theme style props] shadows layers legacy
  show ?thesis by blast
qed


theorem surface_default_elevation_witness:
  "\<not> th_isV3 (sample_theme False)
   \<and> Num 8 = (case flatten (Style [(''padding'', Num 8), (''elevation'', Num 8)]) of
                 None \<Rightarrow> Num 4
               | Some flat \<Rightarrow> (if property flat ''elevation'' = Undefined then Num 4
                               else property flat ''elevation''))
   \<and> Surface (sample_env Ios) None [Text ''content''] (sample_theme False)
        (Style [(''padding'', Num 8), (''elevation'', Num 8)]) [] =
       Inr (Animated_View []
              (Styles [
                 Style [(''backgroundColor'',
                         Obj [(''overlay'', Num 8), (''on'', Str ''#121212'')])],
                 Style [(''shadowRadius'', Num 8)],
                 Style [(''padding'', Num 8), (''elevation'', Num 8)]])
              [Text ''content''])
   \<and> Num 4 = (case flatten (Style [(''padding'', Num 8)]) of
                 None \<Rightarrow> Num 4
               | Some flat \<Rightarrow> (if property flat ''elevation'' = Undefined then Num 4
                               else property flat ''elevation''))
   \<and> Surface (sample_env Ios) (Some (Static 2)) [Text ''content''] (sample_theme False)
        (Style [(''padding'', Num 8)]) [] =
       Inr (Animated_View []
              (Styles [
                 Style [(''backgroundColor'',
                         Obj [(''overlay'', Num 4), (''on'', Str ''#121212'')])],
                 Style [(''shadowRadius'', Num 4)],
                 Style [(''padding'', Num 8)]])
              [Text ''content''])
   \<and> th_isV3 (sample_theme True) \<and> platform_OS (sample_env Ios) \<noteq> Android
   \<and> Surface (sample_env Ios) None [Text ''content''] (sample_theme True) Falsy [] =
       Inr (Animated_View []
             (Style [(''shadowColor'', Str ''#000''), (''shadowOpacity'', Num (15 / 100)),
                     (''shadowOffset'', Obj [(''width'', Num 0), (''height'', Num 1)]),
                     (''shadowRadius'', Num 3)])
             [Animated_View []
                (Style [(''shadowColor'', Str ''#000''), (''shadowOpacity'', Num (3 / 10)),
                        (''shadowOffset'', Obj [(''width'', Num 0), (''height'', Num 1)]),
                        (''shadowRadius'', Num 1)])
                [Animated_View []
                   (Styles [Style [(''backgroundColor'', Str ''#f7f2f9'')], Falsy])
                   [Text ''content'']]])
   \<and> Surface (sample_env Ios) None [Text ''content''] (sample_theme True) Falsy [] \<noteq>
       Surface (sample_env Ios) (Some (Static 2)) [Text ''content''] (sample_theme True) Falsy []
   \<and> platform_OS (sample_env Android) = Android
   \<and> flatten (Style [(''padding'', Num 8)]) = Some [(''padding'', Num 8)]
   \<and> Surface (sample_env Android) None [Text ''content''] (sample_theme True)
        (Style [(''padding'', Num 8)]) [] =
       Inr (Animated_View []
             (Styles [
                Style [(''elevation'', Num 1), (''backgroundColor'', Str ''#f7f2f9'')],
                Style [(''margin'', Undefined), (''padding'', Num 8),
                       (''transform'', Undefined), (''borderRadius'', Undefined)]])
             [Animated_View []
                (Styles [
                   Style [(''elevation'', Num 3), (''borderRadius'', Undefined)],
                   Styles [Style [(''backgroundColor'', Str ''#f7f2f9'')],
                           Style [(''padding'', Num 8)]],
                   Style [(''margin'', Num 0), (''padding'', Num 0)]])
                [Text ''content'']])"
proof -
  have elevation2: "Surface (sample_env Ios) (Some (Static 2)) [Text ''content'']
      (sample_theme True) Falsy [] =
       Inr (Animated_View []
             (Style [(''shadowColor'', Str ''#000''), (''shadowOpacity'', Num (15 / 100)),
                     (''shadowOffset'', Obj [(''width'', Num 0), (''height'', Num 2)]),
                     (''shadowRadius'', Num 6)])
             [Animated_View []
                (Style [(''shadowColor'', Str ''#000''), (''shadowOpacity'', Num (3 / 10)),
                        (''shadowOffset'', Obj [(''width'', Num 0), (''height'', Num 1)]),
                        (''shadowRadius'', Num 2)])
                [Animated_View []
                   (Styles [Style [(''backgroundColor'', Str ''#f3edf6'')], Falsy])
                   [Text ''content'']]])"
    by (simp add: Surface_def Let_def sample_theme_def sample_env_def sample_colors_def
        backgroundColor_def elevation_color_def number_to_string_def property_def
        getStyleForShadowLayer_def iOSShadowOutputRanges_def shadowColor_def index_def)
  have facts: "\<not> th_isV3 (sample_theme False)" "th_isV3 (sample_theme True)"
    "platform_OS (sample_env Ios) \<noteq> Android" "platform_OS (sample_env Android) = Android"
    "th_dark (sample_theme False)" "th_mode (sample_theme False) = Some Adaptive"
    "c_surface (th_colors (sample_theme False)) = Str ''#121212''"
    "c_elevation (th_colors (sample_theme True)) = c_elevation sample_colors"
    by (simp_all add: sample_theme_def sample_env_def sample_colors_def)
  have helpers: "overlay (sample_env Ios) (Num 8) (Str ''#121212'') =
        Obj [(''overlay'', Num 8), (''on'', Str ''#121212'')]"
    "overlay (sample_env Ios) (Num 4) (Str ''#121212'') =
        Obj [(''overlay'', Num 4), (''on'', Str ''#121212'')]"
    "shadow (sample_env Ios) (Num 8) = Style [(''shadowRadius'', Num 8)]"
    "shadow (sample_env Ios) (Num 4) = Style [(''shadowRadius'', Num 4)]"
    by (simp_all add: sample_env_def)
  note legacy_style_elevation =
    surface_default_elevation [where env = "sample_env Ios" and theme = "sample_theme False"
      and style = "Style [(''padding'', Num 8), (''elevation'', Num 8)]"
      and children = "[Text ''content'']" and props = "[]" and elevation_prop = None
      and elevation = "Num 8", THEN conjunct2]
  note legacy_default =
    surface_default_elevation [where env = "sample_env Ios" and theme = "sample_theme False"
      and style = "Style [(''padding'', Num 8)]"
      and children = "[Text ''content'']" and props = "[]"
      and elevation_prop = "Some (Static 2)" and elevation = "Num 4", THEN conjunct2]
  note current_shadows =
    surface_default_elevation [where env = "sample_env Ios" and theme = "sample_theme True"
      and style = Falsy and children = "[Text ''content'']" and props = "[]",
      THEN conjunct2]
  note current_layers =
    surface_default_elevation [where env = "sample_env Android" and theme = "sample_theme True"
      and style = "Style [(''padding'', Num 8)]" and flat = "[(''padding'', Num 8)]"
      and children = "[Text ''content'']" and props = "[]", THEN conjunct2]
  from legacy_style_elevation legacy_default current_shadows current_layers
    elevation2 facts helpers
  show ?thesis
    by (simp add: property_def sample_colors_def)
qed

section \<open>The shape of a rendered Appbar\<close>

lemma centering_v3: "centering platform True children = (False, False, False)"
  by (simp add: centering_def split: prod.splits)

lemma Appbar_single_row:
  assumes "isDark env dark (appbar_backgroundColor env theme style) = Inr d"
    and "\<not> th_isV3 theme \<or> mode_prop = None \<or> mode_prop = Some Small"
    and "centering (platform_OS env) (th_isV3 theme) children = (center, left, right)"
  shows "Appbar env children dark style theme mode_prop rest =
     Inr (Surface_Element rest
            (appbar_style env theme (case mode_prop of None \<Rightarrow> Small | Some m \<Rightarrow> m) style)
            [if left then View styles_spacing [] else Js_Null,
             RenderAppbarContent children d (th_isV3 theme) (Some center) None None,
             Js_False,
             if right then View styles_spacing [] else Js_Null])"
  using assms by (auto simp: Appbar_def Let_def isMode_def)

lemma Appbar_two_row:
  assumes "isDark env dark (appbar_backgroundColor env theme style) = Inr d"
    and "th_isV3 theme" and "mode \<noteq> Small"
    and "list_all has_props (toArray children)"
  shows "Appbar env children dark style theme (Some mode) rest =
     Inr (Surface_Element rest (appbar_style env theme mode style)
            [Js_Null,
             Js_False,
             View (Styles [styles_columnContainer,
                           if mode = Center_Aligned then styles_centerAlignedContainer
                           else Falsy])
               [View styles_controlsRow
                  [RenderAppbarContent children d True None (Some [AppbarBackAction]) (Some mode),
                   RenderAppbarContent (filter props_isLeading (toArray children)) d True None
                     (Some [AppbarAction]) (Some mode),
                   View styles_rightActionControls
                     [RenderAppbarContent
                        (filter (\<lambda>child. \<not> props_isLeading child) (toArray children)) d True
                        None (Some [AppbarAction]) (Some mode)]],
                RenderAppbarContent children d True (Some (mode = Center_Aligned))
                  (Some [AppbarContent]) (Some mode)],
             Js_Null])"
  using assms
  by (cases mode)
     (simp_all add: Appbar_def Let_def isMode_def centering_v3 column_layout_def
        filterAppbarActions_def)

lemma Appbar_error_isDark:
  "isDark env dark (appbar_backgroundColor env theme style) = Inl e \<Longrightarrow>
   Appbar env children dark style theme mode_prop rest = Inl e"
  by (simp add: Appbar_def Let_def)

lemma Appbar_two_row_text_child:
  assumes "th_isV3 theme" and "mode \<noteq> Small"
    and "\<not> list_all has_props (toArray children)"
  shows "\<exists>e. Appbar env children dark style theme (Some mode) rest = Inl e"
  using assms
  by (cases mode; cases "isDark env dark (appbar_backgroundColor env theme style)")
     (simp_all add: Appbar_def Let_def isMode_def centering_v3 column_layout_def
        filterAppbarActions_def)


section \<open>Centering of the legacy Appbar on iOS\<close>

text \<open>
  Claim C4. On iOS in the legacy design version, with the children exactly one Content
  element, the centering flag and both spacing flags are true, and the rendered bar is
  a left spacer, the content with \<open>shouldCenterContent\<close> true, and a right spacer.
\<close>

theorem appbar_content_only_centered:
  "centering Ios False [Element AppbarContent isLeading] = (True, True, True)
   \<and> (\<not> th_isV3 theme \<and> platform_OS env = Ios
        \<and> isDark env dark (appbar_backgroundColor env theme style) = Inr d \<longrightarrow>
        Appbar env [Element AppbarContent isLeading] dark style theme mode_prop rest =
        Inr (Surface_Element rest
               (appbar_style env theme (case mode_prop of None \<Rightarrow> Small | Some m \<Rightarrow> m) style)
               [View styles_spacing [],
                RenderAppbarContent [Element AppbarContent isLeading] d False (Some True)
                  None None,
                Js_False,
                View styles_spacing []]))"
proof -
  have flags: "centering Ios False [Element AppbarContent isLeading] = (True, True, True)"
    by (simp add: centering_def scan_children_def)
  have "Appbar env [Element AppbarContent isLeading] dark style theme mode_prop rest =
        Inr (Surface_Element rest
               (appbar_style env theme (case mode_prop of None \<Rightarrow> Small | Some m \<Rightarrow> m) style)
               [View styles_spacing [],
                RenderAppbarContent [Element AppbarContent isLeading] d False (Some True)
                  None None,
                Js_False,
                View styles_spacing []])"
    if "\<not> th_isV3 theme" "platform_OS env = Ios"
      "isDark env dark (appbar_backgroundColor env theme style) = Inr d"
    using Appbar_single_row [where env = env and dark = dark and theme = theme
        and style = style and d = d and mode_prop = mode_prop
        and children = "[Element AppbarContent isLeading]"
        and center = True and left = True and right = True and rest = rest]
      that flags
    by simp
  with flags show ?thesis by blast
qed

theorem appbar_content_only_centered_witness:
  "\<not> th_isV3 (sample_theme False) \<and> platform_OS (sample_env Ios) = Ios
   \<and> isDark (sample_env Ios) None
        (appbar_backgroundColor (sample_env Ios) (sample_theme False) Falsy) = Inr True
   \<and> Appbar (sample_env Ios) [Element AppbarContent False] None Falsy (sample_theme False)
        None [] =
       Inr (Surface_Element []
              (appbar_style (sample_env Ios) (sample_theme False) Small Falsy)
              [View styles_spacing [],
               RenderAppbarContent [Element AppbarContent False] True False (Some True)
                 None None,
               Js_False,
               View styles_spacing []])"
  using appbar_content_only_centered [where theme = "sample_theme False"
      and env = "sample_env Ios" and dark = None and style = Falsy and d = True
      and isLeading = False and mode_prop = None and rest = "[]"]
  by (simp add: sample_theme_def sample_env_def sample_colors_def isDark_def
      appbar_backgroundColor_def appbar_elevation_def style_elevation_def
      flatten_or_empty_def property_def)

text \<open>
  Claim C5. On iOS in the legacy design version, the scan of the children BackAction,
  Content, Action, Action counts one item before the content and two after it, so the
  centering flag is false and the bar is rendered without spacers.
\<close>

theorem appbar_two_trailing_not_centered:
  "scan_children [Element AppbarBackAction l1, Element AppbarContent l2,
                  Element AppbarAction l3, Element AppbarAction l4] = (True, 1, 2)
   \<and> centering Ios False [Element AppbarBackAction l1, Element AppbarContent l2,
                          Element AppbarAction l3, Element AppbarAction l4]
       = (False, False, False)
   \<and> (\<not> th_isV3 theme \<and> platform_OS env = Ios
        \<and> isDark env dark (appbar_backgroundColor env theme style) = Inr d \<longrightarrow>
        Appbar env [Element AppbarBackAction l1, Element AppbarContent l2,
                    Element AppbarAction l3, Element AppbarAction l4]
          dark style theme mode_prop rest =
        Inr (Surface_Element rest
               (appbar_style env theme (case mode_prop of None \<Rightarrow> Small | Some m \<Rightarrow> m) style)
               [Js_Null,
                RenderAppbarContent
                  [Element AppbarBackAction l1, Element AppbarContent l2,
                   Element AppbarAction l3, Element AppbarAction l4]
                  d False (Some False) None None,
                Js_False,
                Js_Null]))"
proof -
  let ?children = "[Element AppbarBackAction l1, Element AppbarContent l2,
                    Element AppbarAction l3, Element AppbarAction l4]"
  have counts: "scan_children ?children = (True, 1, 2)"
    by (simp add: scan_children_def)
  have flags: "centering Ios False ?children = (False, False, False)"
    by (simp add: centering_def counts)
  have "Appbar env ?children dark style theme mode_prop rest =
        Inr (Surface_Element rest
               (appbar_style env theme (case mode_prop of None \<Rightarrow> Small | Some m \<Rightarrow> m) style)
               [Js_Null,
                RenderAppbarContent ?children d False (Some False) None None,
                Js_False,
                Js_Null])"
    if "\<not> th_isV3 theme" "platform_OS env = Ios"
      "isDark env dark (appbar_backgroundColor env theme style) = Inr d"
    using Appbar_single_row [where env = env and dark = dark and theme = theme
        and style = style and d = d and mode_prop = mode_prop and children = ?children
        and center = False and left = False and right = False and rest = rest]
      that flags
    by simp
  with counts flags show ?thesis by blast
qed

theorem appbar_two_trailing_not_centered_witness:
  "\<not> th_isV3 (sample_theme False) \<and> platform_OS (sample_env Ios) = Ios
   \<and> isDark (sample_env Ios) (Some False)
        (appbar_backgroundColor (sample_env Ios) (sample_theme False) Falsy) = Inr False
   \<and> Appbar (sample_env Ios)
        [Element AppbarBackAction False, Element AppbarContent False,
         Element AppbarAction False, Element AppbarAction False]
        (Some False) Falsy (sample_theme False) None [] =
       Inr (Surface_Element []
              (appbar_style (sample_env Ios) (sample_theme False) Small Falsy)
              [Js_Null,
               RenderAppbarContent
                 [Element AppbarBackAction False, Element AppbarContent False,
                  Element AppbarAction False, Element AppbarAction False]
                 False False (Some False) None None,
               Js_False,
               Js_Null])"
  using appbar_two_trailing_not_centered [where theme = "sample_theme False"
      and env = "sample_env Ios" and dark = "Some False" and style = Falsy and d = False
      and ?l1.0 = False and ?l2.0 = False and ?l3.0 = False and ?l4.0 = False
      and mode_prop = None and rest = "[]"]
  by (simp add: sample_theme_def sample_env_def isDark_def)


section \<open>The dark flag of the Appbar\<close>

lemma Appbar_isDark_arguments:
  assumes "Appbar env children dark style theme mode_prop rest = Inr t"
  shows "\<exists>d. isDark env dark (appbar_backgroundColor env theme style) = Inr d
             \<and> set (isDark_arguments t) \<subseteq> {d}"
proof (cases "isDark env dark (appbar_backgroundColor env theme style)")
  case (Inl e)
  with assms show ?thesis by (simp add: Appbar_error_isDark)
next
  case (Inr d)
  show ?thesis
  proof (cases "\<not> th_isV3 theme \<or> mode_prop = None \<or> mode_prop = Some Small")
    case True
    obtain center left right
      where "centering (platform_OS env) (th_isV3 theme) children = (center, left, right)"
      by (cases "centering (platform_OS env) (th_isV3 theme) children") auto
    from Appbar_single_row [OF Inr True this, of rest] assms Inr show ?thesis
      by (auto simp: styles_spacing_def)
  next
    case False
    then obtain mode where mode: "th_isV3 theme" "mode_prop = Some mode" "mode \<noteq> Small"
      by auto
    show ?thesis
    proof (cases "list_all has_props (toArray children)")
      case True
      from Appbar_two_row [OF Inr mode(1) mode(3) True, of rest] assms Inr mode(2)
      show ?thesis by auto
    next
      case False
      from Appbar_two_row_text_child [OF mode(1) mode(3) False, of env dark style rest]
        assms mode(2)
      show ?thesis by auto
    qed
  qed
qed

text \<open>
  Claim C7. With \<open>dark\<close> undefined and the background colour the string
  \<^verbatim>\<open>transparent\<close>, the flag is false; with \<open>dark\<close> an explicit boolean the flag is that
  boolean, whatever the background colour is and whatever its luminance. Every call of
  \<^verbatim>\<open>renderAppbarContent\<close> in a rendered Appbar receives that flag.
\<close>

theorem appbar_isDark_explicit_or_transparent:
  "isDark env None (Str ''transparent'') = Inr False
   \<and> isDark env (Some b) bg = Inr b
   \<and> (appbar_backgroundColor env theme style = Str ''transparent''
        \<and> Appbar env children None style theme mode_prop rest = Inr t \<longrightarrow>
        set (isDark_arguments t) \<subseteq> {False})
   \<and> (Appbar env children (Some b) style theme mode_prop rest = Inr t \<longrightarrow>
        set (isDark_arguments t) \<subseteq> {b})"
proof -
  have transparent: "isDark env None (Str ''transparent'') = Inr False"
    by (simp add: isDark_def)
  have explicit: "isDark env (Some b) bg = Inr b" for bg
    by (simp add: isDark_def)
  have t1: "set (isDark_arguments t) \<subseteq> {False}"
    if "appbar_backgroundColor env theme style = Str ''transparent''"
      "Appbar env children None style theme mode_prop rest = Inr t"
    using Appbar_isDark_arguments [OF that(2)] transparent that(1) by auto
  have t2: "set (isDark_arguments t) \<subseteq> {b}"
    if "Appbar env children (Some b) style theme mode_prop rest = Inr t"
    using Appbar_isDark_arguments [OF that] explicit by auto
  from transparent explicit t1 t2 show ?thesis by blast
qed

theorem appbar_isDark_explicit_or_transparent_witness:
  "appbar_backgroundColor (sample_env Ios) (sample_theme True)
     (Style [(''backgroundColor'', Str ''transparent'')]) = Str ''transparent''
   \<and> Appbar (sample_env Ios) [Element AppbarContent False] None
        (Style [(''backgroundColor'', Str ''transparent'')]) (sample_theme True) None [] =
       Inr (Surface_Element []
              (appbar_style (sample_env Ios) (sample_theme True) Small
                 (Style [(''backgroundColor'', Str ''transparent'')]))
              [Js_Null,
               RenderAppbarContent [Element AppbarContent False] False True (Some False)
                 None None,
               Js_False, Js_Null])
   \<and> Appbar (sample_env Ios) [Element AppbarContent False] (Some False)
        (Style [(''backgroundColor'', Str ''#121212'')]) (sample_theme False) None [] =
       Inr (Surface_Element []
              (appbar_style (sample_env Ios) (sample_theme False) Small
                 (Style [(''backgroundColor'', Str ''#121212'')]))
              [View styles_spacing [],
               RenderAppbarContent [Element AppbarContent False] False False (Some True)
                 None None,
               Js_False, View styles_spacing []])
   \<and> isDark (sample_env Ios) (Some False) (Str ''#121212'') = Inr False
   \<and> color_isLight (sample_env Ios) ''#121212'' = Some False"
proof -
  have ios: "platform_OS (sample_env Ios) = Ios"
    by (simp add: sample_env_def)
  have v3: "th_isV3 (sample_theme True)" and legacy: "\<not> th_isV3 (sample_theme False)"
    by (simp_all add: sample_theme_def)
  have bg: "appbar_backgroundColor (sample_env Ios) (sample_theme True)
     (Style [(''backgroundColor'', Str ''transparent'')]) = Str ''transparent''"
    by (simp add: sample_env_def appbar_backgroundColor_def flatten_or_empty_def property_def)
  have undefined_dark: "Appbar (sample_env Ios) [Element AppbarContent False] None
        (Style [(''backgroundColor'', Str ''transparent'')]) (sample_theme True) None [] =
       Inr (Surface_Element []
              (appbar_style (sample_env Ios) (sample_theme True) Small
                 (Style [(''backgroundColor'', Str ''transparent'')]))
              [Js_Null,
               RenderAppbarContent [Element AppbarContent False] False True (Some False)
                 None None,
               Js_False, Js_Null])"
    by (simp add: Appbar_def Let_def bg isDark_def isMode_def centering_def scan_children_def
        ios v3)
  have bg': "appbar_backgroundColor (sample_env Ios) (sample_theme False)
     (Style [(''backgroundColor'', Str ''#121212'')]) = Str ''#121212''"
    by (simp add: sample_env_def appbar_backgroundColor_def flatten_or_empty_def property_def)
  have explicit_dark: "Appbar (sample_env Ios) [Element AppbarContent False] (Some False)
        (Style [(''backgroundColor'', Str ''#121212'')]) (sample_theme False) None [] =
       Inr (Surface_Element []
              (appbar_style (sample_env Ios) (sample_theme False) Small
                 (Style [(''backgroundColor'', Str ''#121212'')]))
              [View styles_spacing [],
               RenderAppbarContent [Element AppbarContent False] False False (Some True)
                 None None,
               Js_False, View styles_spacing []])"
    by (simp add: Appbar_def Let_def bg' isDark_def isMode_def centering_def scan_children_def
        ios legacy)
  have light: "color_isLight (sample_env Ios) ''#121212'' = Some False"
    by (simp add: sample_env_def)
  from appbar_isDark_explicit_or_transparent [where env = "sample_env Ios"
      and theme = "sample_theme True" and b = False and bg = "Str ''#121212''"
      and style = "Style [(''backgroundColor'', Str ''transparent'')]"
      and children = "[Element AppbarContent False]" and mode_prop = None and rest = "[]"]
    bg undefined_dark explicit_dark light
  show ?thesis by simp
qed

text \<open>
  Claim C10. With \<open>dark\<close> undefined and a background colour that is no string (an
  interpolation node, \<^verbatim>\<open>undefined\<close>), the flag is true, for every theme and whatever the
  luminance test of the colour package would answer; every call of
  \<^verbatim>\<open>renderAppbarContent\<close> in a rendered Appbar receives true.
\<close>

theorem appbar_isDark_non_string:
  "((\<forall>s. bg \<noteq> Str s) \<longrightarrow> isDark env None bg = Inr True)
   \<and> ((\<forall>s. appbar_backgroundColor env theme style \<noteq> Str s)
        \<and> Appbar env children None style theme mode_prop rest = Inr t \<longrightarrow>
        set (isDark_arguments t) \<subseteq> {True})"
proof -
  have flag: "isDark env None bg = Inr True" if "\<forall>s. bg \<noteq> Str s" for bg
    using that by (cases bg) (simp_all add: isDark_def)
  have "set (isDark_arguments t) \<subseteq> {True}"
    if "\<forall>s. appbar_backgroundColor env theme style \<noteq> Str s"
      "Appbar env children None style theme mode_prop rest = Inr t"
    using Appbar_isDark_arguments [OF that(2)] flag [OF that(1)] by auto
  with flag show ?thesis by blast
qed

theorem appbar_isDark_non_string_witness:
  "(\<forall>s. Interpolation (Animated_Value 7) [0, 1] [Str ''#ffffff'', Str ''#121212''] \<noteq> Str s)
   \<and> isDark (sample_env Ios) None
        (Interpolation (Animated_Value 7) [0, 1] [Str ''#ffffff'', Str ''#121212'']) = Inr True
   \<and> (\<forall>s. appbar_backgroundColor (sample_env Ios) (sample_theme True)
              (Style [(''backgroundColor'', Null)]) \<noteq> Str s)
   \<and> Appbar (sample_env Ios) [Element AppbarContent False] None
        (Style [(''backgroundColor'', Null)]) (sample_theme True) None [] =
       Inr (Surface_Element []
              (appbar_style (sample_env Ios) (sample_theme True) Small
                 (Style [(''backgroundColor'', Null)]))
              [Js_Null,
               RenderAppbarContent [Element AppbarContent False] True True (Some False)
                 None None,
               Js_False, Js_Null])
   \<and> set (isDark_arguments
        (Surface_Element []
              (appbar_style (sample_env Ios) (sample_theme True) Small
                 (Style [(''backgroundColor'', Null)]))
              [Js_Null,
               RenderAppbarContent [Element AppbarContent False] True True (Some False)
                 None None,
               Js_False, Js_Null])) \<subseteq> {True}"
  using appbar_isDark_non_string [where env = "sample_env Ios" and theme = "sample_theme True"
      and bg = "Interpolation (Animated_Value 7) [0, 1] [Str ''#ffffff'', Str ''#121212'']"
      and style = "Style [(''backgroundColor'', Null)]"
      and children = "[Element AppbarContent False]" and mode_prop = None and rest = "[]"
      and t = "Surface_Element []
              (appbar_style (sample_env Ios) (sample_theme True) Small
                 (Style [(''backgroundColor'', Null)]))
              [Js_Null,
               RenderAppbarContent [Element AppbarContent False] True True (Some False)
                 None None,
               Js_False, Js_Null]"]
  by (simp add: sample_theme_def sample_env_def sample_colors_def isDark_def
      appbar_backgroundColor_def appbar_elevation_def style_elevation_def
      flatten_or_empty_def property_def Appbar_def Let_def isMode_def centering_def
      scan_children_def)

section \<open>The modes of the Appbar\<close>

text \<open>
  Claim C8. In the current design version with the mode center-aligned, the two rows are
  rendered inside a view whose style is the column container's followed by the
  centered variant, and the content row is asked to center; the effective top padding
  of that view is 0, where the column container alone has 8.
\<close>

theorem appbar_center_aligned_container:
  "(th_isV3 theme \<and> list_all has_props (toArray children)
      \<and> isDark env dark (appbar_backgroundColor env theme style) = Inr d \<longrightarrow>
      Appbar env children dark style theme (Some Center_Aligned) rest =
      Inr (Surface_Element rest (appbar_style env theme Center_Aligned style)
             [Js_Null,
              Js_False,
              View (Styles [styles_columnContainer, styles_centerAlignedContainer])
                [View styles_controlsRow
                   [RenderAppbarContent children d True None (Some [AppbarBackAction])
                      (Some Center_Aligned),
                    RenderAppbarContent (filter props_isLeading (toArray children)) d True None
                      (Some [AppbarAction]) (Some Center_Aligned),
                    View styles_rightActionControls
                      [RenderAppbarContent
                         (filter (\<lambda>child. \<not> props_isLeading child) (toArray children)) d True
                         None (Some [AppbarAction]) (Some Center_Aligned)]],
                 RenderAppbarContent children d True (Some True) (Some [AppbarContent])
                   (Some Center_Aligned)],
              Js_Null]))
   \<and> property (effective_style
        (View (Styles [styles_columnContainer, styles_centerAlignedContainer]) rows))
        ''paddingTop'' = Num 0
   \<and> property (effective_style (View (Styles [styles_columnContainer, Falsy]) rows))
        ''paddingTop'' = Num 8"
proof -
  have tree: "Appbar env children dark style theme (Some Center_Aligned) rest =
      Inr (Surface_Element rest (appbar_style env theme Center_Aligned style)
             [Js_Null,
              Js_False,
              View (Styles [styles_columnContainer, styles_centerAlignedContainer])
                [View styles_controlsRow
                   [RenderAppbarContent children d True None (Some [AppbarBackAction])
                      (Some Center_Aligned),
                    RenderAppbarContent (filter props_isLeading (toArray children)) d True None
                      (Some [AppbarAction]) (Some Center_Aligned),
                    View styles_rightActionControls
                      [RenderAppbarContent
                         (filter (\<lambda>child. \<not> props_isLeading child) (toArray children)) d True
                         None (Some [AppbarAction]) (Some Center_Aligned)]],
                 RenderAppbarContent children d True (Some True) (Some [AppbarContent])
                   (Some Center_Aligned)],
              Js_Null])"
    if "th_isV3 theme" "list_all has_props (toArray children)"
      "isDark env dark (appbar_backgroundColor env theme style) = Inr d"
    using Appbar_two_row [OF that(3) that(1) _ that(2), of Center_Aligned rest] by simp
  have centered: "property (effective_style
        (View (Styles [styles_columnContainer, styles_centerAlignedContainer]) rows))
        ''paddingTop'' = Num 0"
    by (simp add: effective_style_def flatten_or_empty_def styles_columnContainer_def
        styles_centerAlignedContainer_def property_set_key)
  have plain: "property (effective_style (View (Styles [styles_columnContainer, Falsy]) rows))
        ''paddingTop'' = Num 8"
    by (simp add: effective_style_def flatten_or_empty_def styles_columnContainer_def
        property_set_key)
  from tree centered plain show ?thesis by blast
qed

theorem appbar_center_aligned_container_witness:
  "th_isV3 (sample_theme True)
   \<and> list_all has_props
        (toArray [Element AppbarBackAction False, Element AppbarContent False,
                  Element AppbarAction True, Empty_Child])
   \<and> isDark (sample_env Android) None
        (appbar_backgroundColor (sample_env Android) (sample_theme True) Falsy) = Inr True
   \<and> Appbar (sample_env Android)
        [Element AppbarBackAction False, Element AppbarContent False,
         Element AppbarAction True, Empty_Child]
        None Falsy (sample_theme True) (Some Center_Aligned) [] =
      Inr (Surface_Element []
             (appbar_style (sample_env Android) (sample_theme True) Center_Aligned Falsy)
             [Js_Null,
              Js_False,
              View (Styles [styles_columnContainer, styles_centerAlignedContainer])
                [View styles_controlsRow
                   [RenderAppbarContent
                      [Element AppbarBackAction False, Element AppbarContent False,
                       Element AppbarAction True, Empty_Child]
                      True True None (Some [AppbarBackAction]) (Some Center_Aligned),
                    RenderAppbarContent [Element AppbarAction True] True True None
                      (Some [AppbarAction]) (Some Center_Aligned),
                    View styles_rightActionControls
                      [RenderAppbarContent
                         [Element AppbarBackAction False, Element AppbarContent False]
                         True True None (Some [AppbarAction]) (Some Center_Aligned)]],
                 RenderAppbarContent
                   [Element AppbarBackAction False, Element AppbarContent False,
                    Element AppbarAction True, Empty_Child]
                   True True (Some True) (Some [AppbarContent]) (Some Center_Aligned)],
              Js_Null])"
  using appbar_center_aligned_container [where theme = "sample_theme True"
      and env = "sample_env Android" and dark = None and style = Falsy and d = True
      and children = "[Element AppbarBackAction False, Element AppbarContent False,
                       Element AppbarAction True, Empty_Child]"
      and rest = "[]"]
  by (simp add: sample_theme_def sample_env_def sample_colors_def isDark_def toArray_def
      appbar_backgroundColor_def appbar_elevation_def style_elevation_def
      flatten_or_empty_def property_def)

text \<open>
  Claim C9. Whatever the theme, the children, the platform and the other props, a
  rendered Appbar holds the column container exactly when the current design version is
  active and the mode is medium, large or center-aligned; with the mode small, or in the
  legacy design version with any mode, it never does.
\<close>

theorem appbar_column_container_iff_two_row_mode:
  assumes rendered: "Appbar env children dark style theme mode_prop rest = Inr t"
  shows "has_column_container t \<longleftrightarrow>
        th_isV3 theme
        \<and> (mode_prop = Some Medium \<or> mode_prop = Some Large \<or> mode_prop = Some Center_Aligned)"
proof -
  from rendered
  obtain d where d: "isDark env dark (appbar_backgroundColor env theme style) = Inr d"
    using Appbar_isDark_arguments by blast
  show ?thesis
  proof (cases "\<not> th_isV3 theme \<or> mode_prop = None \<or> mode_prop = Some Small")
    case True
    obtain center left right
      where "centering (platform_OS env) (th_isV3 theme) children = (center, left, right)"
      by (cases "centering (platform_OS env) (th_isV3 theme) children") auto
    from Appbar_single_row [OF d True this, of rest] rendered True show ?thesis
      by (auto simp: styles_spacing_def)
  next
    case False
    then obtain mode where mode: "th_isV3 theme" "mode_prop = Some mode" "mode \<noteq> Small"
      by auto
    have two_row: "mode_prop = Some Medium \<or> mode_prop = Some Large
        \<or> mode_prop = Some Center_Aligned"
      using mode by (cases mode) auto
    have "list_all has_props (toArray children)"
      using Appbar_two_row_text_child [OF mode(1) mode(3), of children env dark style rest]
        rendered mode(2)
      by auto
    from Appbar_two_row [OF d mode(1) mode(3) this, of rest] rendered mode two_row
    show ?thesis by auto
  qed
qed


theorem appbar_column_container_iff_two_row_mode_witness:
  "Appbar (sample_env Ios) [Element AppbarContent False] (Some True) Falsy (sample_theme True)
     (Some Small) [] =
     Inr (Surface_Element [] (appbar_style (sample_env Ios) (sample_theme True) Small Falsy)
            [Js_Null,
             RenderAppbarContent [Element AppbarContent False] True True (Some False) None None,
             Js_False, Js_Null])
   \<and> \<not> has_column_container
        (Surface_Element [] (appbar_style (sample_env Ios) (sample_theme True) Small Falsy)
            [Js_Null,
             RenderAppbarContent [Element AppbarContent False] True True (Some False) None None,
             Js_False, Js_Null])
   \<and> Appbar (sample_env Ios) [Element AppbarContent False] (Some True) Falsy (sample_theme True)
       (Some Medium) [] =
     Inr (Surface_Element [] (appbar_style (sample_env Ios) (sample_theme True) Medium Falsy)
            [Js_Null,
             Js_False,
             View (Styles [styles_columnContainer, Falsy])
               [View styles_controlsRow
                  [RenderAppbarContent [Element AppbarContent False] True True None
                     (Some [AppbarBackAction]) (Some Medium),
                   RenderAppbarContent [] True True None (Some [AppbarAction]) (Some Medium),
                   View styles_rightActionControls
                     [RenderAppbarContent [Element AppbarContent False] True True None
                        (Some [AppbarAction]) (Some Medium)]],
                RenderAppbarContent [Element AppbarContent False] True True (Some False)
                  (Some [AppbarContent]) (Some Medium)],
             Js_Null])
   \<and> has_column_container
        (Surface_Element [] (appbar_style (sample_env Ios) (sample_theme True) Medium Falsy)
            [Js_Null,
             Js_False,
             View (Styles [styles_columnContainer, Falsy])
               [View styles_controlsRow
                  [RenderAppbarContent [Element AppbarContent False] True True None
                     (Some [AppbarBackAction]) (Some Medium),
                   RenderAppbarContent [] True True None (Some [AppbarAction]) (Some Medium),
                   View styles_rightActionControls
                     [RenderAppbarContent [Element AppbarContent False] True True None
                        (Some [AppbarAction]) (Some Medium)]],
                RenderAppbarContent [Element AppbarContent False] True True (Some False)
                  (Some [AppbarContent]) (Some Medium)],
             Js_Null])"
proof -
  have small: "Appbar (sample_env Ios) [Element AppbarContent False] (Some True) Falsy
     (sample_theme True) (Some Small) [] =
     Inr (Surface_Element [] (appbar_style (sample_env Ios) (sample_theme True) Small Falsy)
            [Js_Null,
             RenderAppbarContent [Element AppbarContent False] True True (Some False) None None,
             Js_False, Js_Null])"
    by (simp add: Appbar_def Let_def isMode_def isDark_def centering_def sample_theme_def
        sample_env_def scan_children_def)
  have medium: "Appbar (sample_env Ios) [Element AppbarContent False] (Some True) Falsy
       (sample_theme True) (Some Medium) [] =
     Inr (Surface_Element [] (appbar_style (sample_env Ios) (sample_theme True) Medium Falsy)
            [Js_Null,
             Js_False,
             View (Styles [styles_columnContainer, Falsy])
               [View styles_controlsRow
                  [RenderAppbarContent [Element AppbarContent False] True True None
                     (Some [AppbarBackAction]) (Some Medium),
                   RenderAppbarContent [] True True None (Some [AppbarAction]) (Some Medium),
                   View styles_rightActionControls
                     [RenderAppbarContent [Element AppbarContent False] True True None
                        (Some [AppbarAction]) (Some Medium)]],
                RenderAppbarContent [Element AppbarContent False] True True (Some False)
                  (Some [AppbarContent]) (Some Medium)],
             Js_Null])"
    by (simp add: Appbar_def Let_def isMode_def isDark_def centering_def sample_theme_def
        sample_env_def scan_children_def column_layout_def filterAppbarActions_def toArray_def)
  have v3: "th_isV3 (sample_theme True)"
    by (simp add: sample_theme_def)
  from appbar_column_container_iff_two_row_mode [where t = "Surface_Element []
          (appbar_style (sample_env Ios) (sample_theme True) Small Falsy)
          [Js_Null,
           RenderAppbarContent [Element AppbarContent False] True True (Some False) None None,
           Js_False, Js_Null]", OF small]
    appbar_column_container_iff_two_row_mode [OF medium] small medium v3
  show ?thesis by simp
qed

end
